theory Spec2Isabelle
  imports Complex_Main "HOL-Library.AList" "HOL-Library.Sublist"
    "HOL-Library.Char_ord" "HOL-Library.List_Lexorder" "HOL-Library.Log_Nat"
begin

section \<open>Values, dictionaries and errors\<close>

text \<open>
  The job-destination rules of \<^verbatim>\<open>jcaas/__init__.py\<close> work on dictionaries read from YAML
  catalogs. A value is an integer, a float, a string or a nested dictionary. A float is a
  double: \<open>PFloat r\<close> is the finite double of value \<open>r\<close>, \<open>PInf True\<close> and \<open>PInf False\<close> are
  the positive and the negative infinity, \<open>PNan\<close> is not-a-number. The sign of a zero is not
  kept.

  A dictionary is an association list in insertion order; a lookup reads the first binding
  of a key, an assignment replaces it in place or appends a new binding, as a Python
  \<^verbatim>\<open>dict\<close> does.
\<close>

datatype pyval =
    PInt int
  | PFloat rat
  | PInf bool
  | PNan
  | PStr string
  | PDict "(string \<times> pyval) list"

type_synonym pydict = "(string \<times> pyval) list"

datatype error =
    KeyError string
  | TypeError
  | AttributeError
  | ValueError
  | IndexError
  | ZeroDivisionError
  | OverflowError
  | RequestException
  | RemoteError
  | BothClustersDown
  | Unauthorized

text \<open>\<^verbatim>\<open>k in d\<close>, \<^verbatim>\<open>d.get(k, default)\<close>, \<^verbatim>\<open>len(d.keys())\<close>, \<^verbatim>\<open>d[k] = v\<close> and
  \<^verbatim>\<open>d.update(other)\<close>.\<close>

definition has_key :: "pydict \<Rightarrow> string \<Rightarrow> bool" where
  "has_key d k = (map_of d k \<noteq> None)"

definition get_or :: "pydict \<Rightarrow> string \<Rightarrow> pyval \<Rightarrow> pyval" where
  "get_or d k dflt = (case map_of d k of None \<Rightarrow> dflt | Some v \<Rightarrow> v)"

definition py_len :: "pydict \<Rightarrow> nat" where
  "py_len d = length (remdups (map fst d))"

definition set_item :: "pydict \<Rightarrow> string \<Rightarrow> pyval \<Rightarrow> pydict" where
  "set_item d k v = AList.update k v d"

definition dict_update :: "pydict \<Rightarrow> pydict \<Rightarrow> pydict" where
  "dict_update d other = foldl (\<lambda>acc kv. set_item acc (fst kv) (snd kv)) d other"

text \<open>The value of a finite number; \<open>None\<close> for every other value.\<close>

fun num_of :: "pyval \<Rightarrow> rat option" where
  "num_of (PInt n) = Some (of_int n)"
| "num_of (PFloat r) = Some r"
| "num_of (PInf s) = None"
| "num_of PNan = None"
| "num_of (PStr s) = None"
| "num_of (PDict d) = None"

definition bind_err :: "error + 'a \<Rightarrow> ('a \<Rightarrow> error + 'b) \<Rightarrow> error + 'b" where
  "bind_err m f = (case m of Inl e \<Rightarrow> Inl e | Inr v \<Rightarrow> f v)"

section \<open>Float arithmetic\<close>

text \<open>
  The result of an operation on floats is the exact result rounded to the nearest double,
  ties to the even significand: a double has 53 significant bits, and below the power
  \<open>- 1022\<close> of two it is a multiple of the power \<open>- 1074\<close>. A result that rounds to the power
  1024 of two or beyond is an infinity; the conversion of such an integer to a float, and
  the true division of integers with such a quotient, raise \<^verbatim>\<open>OverflowError\<close>.
\<close>

definition floor_log2 :: "rat \<Rightarrow> int" where
  "floor_log2 x =
     (let (a, b) = quotient_of x; d = bitlen a - bitlen b
      in if 2 powi d \<le> x then d else d - 1)"

definition round_half_even :: "rat \<Rightarrow> int" where
  "round_half_even x =
     (let f = \<lfloor>x\<rfloor>; d = x - of_int f
      in if d < 1 / 2 then f else if 1 / 2 < d then f + 1 else if even f then f else f + 1)"

definition round_double :: "rat \<Rightarrow> rat" where
  "round_double x =
     (if x = 0 then 0
      else let e = max (floor_log2 \<bar>x\<bar>) (- 1022); u = 2 powi (e - 52)
           in sgn x * of_int (round_half_even (\<bar>x\<bar> / u)) * u)"

definition FLOAT_LIMIT :: rat where
  "FLOAT_LIMIT = 2 ^ 1024 - 2 ^ 970"

definition to_float :: "rat \<Rightarrow> pyval" where
  "to_float x = (if FLOAT_LIMIT \<le> \<bar>x\<bar> then PInf (0 < x) else PFloat (round_double x))"

text \<open>\<^verbatim>\<open>float(n)\<close> for an integer, as the mixed operations do it.\<close>

definition int_to_float :: "int \<Rightarrow> error + pyval" where
  "int_to_float n =
     (if FLOAT_LIMIT \<le> \<bar>of_int n\<bar> then Inl OverflowError
      else Inr (PFloat (round_double (of_int n))))"

definition is_float :: "pyval \<Rightarrow> bool" where
  "is_float v = (case v of PFloat r \<Rightarrow> True | PInf s \<Rightarrow> True | PNan \<Rightarrow> True | _ \<Rightarrow> False)"

text \<open>The quotient of two floats; a zero divisor is looked at first.\<close>

fun float_div :: "pyval \<Rightarrow> pyval \<Rightarrow> error + pyval" where
  "float_div (PFloat x) (PFloat y) =
     (if y = 0 then Inl ZeroDivisionError else Inr (to_float (x / y)))"
| "float_div (PInf s) (PFloat y) =
     (if y = 0 then Inl ZeroDivisionError else Inr (PInf (s = (0 < y))))"
| "float_div PNan (PFloat y) = (if y = 0 then Inl ZeroDivisionError else Inr PNan)"
| "float_div (PFloat x) (PInf t) = Inr (PFloat 0)"
| "float_div (PInf s) (PInf t) = Inr PNan"
| "float_div PNan (PInf t) = Inr PNan"
| "float_div (PFloat x) PNan = Inr PNan"
| "float_div (PInf s) PNan = Inr PNan"
| "float_div PNan PNan = Inr PNan"
| "float_div a b = Inl TypeError"

text \<open>\<^verbatim>\<open>a / b\<close>: the true division of integers is rounded once; an integer beside a float
  is converted first.\<close>

definition py_truediv :: "pyval \<Rightarrow> pyval \<Rightarrow> error + pyval" where
  "py_truediv a b =
     (case a of
        PInt m \<Rightarrow>
          (case b of
             PInt n \<Rightarrow>
               if n = 0 then Inl ZeroDivisionError
               else if FLOAT_LIMIT \<le> \<bar>of_int m / of_int n\<bar> then Inl OverflowError
               else Inr (PFloat (round_double (of_int m / of_int n)))
           | _ \<Rightarrow>
               if is_float b then bind_err (int_to_float m) (\<lambda>fa. float_div fa b)
               else Inl TypeError)
      | _ \<Rightarrow>
          (case b of
             PInt n \<Rightarrow>
               if is_float a then bind_err (int_to_float n) (\<lambda>fb. float_div a fb)
               else Inl TypeError
           | _ \<Rightarrow> float_div a b))"

text \<open>\<^verbatim>\<open>1024 * v\<close>; a string is repeated.\<close>

definition times_1024 :: "pyval \<Rightarrow> error + pyval" where
  "times_1024 v =
     (case v of
        PInt n \<Rightarrow> Inr (PInt (1024 * n))
      | PFloat r \<Rightarrow> Inr (to_float (1024 * r))
      | PInf s \<Rightarrow> Inr (PInf s)
      | PNan \<Rightarrow> Inr PNan
      | PStr s \<Rightarrow> Inr (PStr (concat (replicate 1024 s)))
      | PDict d \<Rightarrow> Inl TypeError)"

text \<open>\<^verbatim>\<open>v * scale\<close> for a finite float \<^verbatim>\<open>scale\<close>.\<close>

definition py_mul :: "pyval \<Rightarrow> rat \<Rightarrow> error + pyval" where
  "py_mul v scale =
     (case v of
        PInt n \<Rightarrow>
          (if FLOAT_LIMIT \<le> \<bar>of_int n\<bar> then Inl OverflowError
           else Inr (to_float (round_double (of_int n) * scale)))
      | PFloat r \<Rightarrow> Inr (to_float (r * scale))
      | PInf s \<Rightarrow> Inr (if scale = 0 then PNan else PInf (s = (0 < scale)))
      | PNan \<Rightarrow> Inr PNan
      | _ \<Rightarrow> Inl TypeError)"

text \<open>\<^verbatim>\<open>c < v\<close> for an integer \<^verbatim>\<open>c\<close>: the comparison is exact, nothing is below not-a-number,
  and a string or a dictionary cannot be compared with a number.\<close>

definition py_less :: "int \<Rightarrow> pyval \<Rightarrow> error + bool" where
  "py_less c v =
     (case v of
        PInt n \<Rightarrow> Inr (c < n)
      | PFloat r \<Rightarrow> Inr (of_int c < r)
      | PInf s \<Rightarrow> Inr s
      | PNan \<Rightarrow> Inr False
      | _ \<Rightarrow> Inl TypeError)"

text \<open>\<^verbatim>\<open>int(x)\<close> cuts the fraction of a float off, towards zero.\<close>

definition py_trunc :: "rat \<Rightarrow> int" where
  "py_trunc x = (if x < 0 then \<lceil>x\<rceil> else \<lfloor>x\<rfloor>)"

definition float_to_int :: "pyval \<Rightarrow> error + int" where
  "float_to_int v =
     (case v of
        PFloat r \<Rightarrow> Inr (py_trunc r)
      | PInf s \<Rightarrow> Inl OverflowError
      | PNan \<Rightarrow> Inl ValueError
      | PInt n \<Rightarrow> Inr n
      | _ \<Rightarrow> Inl TypeError)"

text \<open>\<^verbatim>\<open>int(math.ceil(v))\<close>.\<close>

definition py_ceil :: "pyval \<Rightarrow> error + int" where
  "py_ceil v =
     (case v of
        PInt n \<Rightarrow> Inr n
      | PFloat r \<Rightarrow> Inr \<lceil>r\<rceil>
      | PInf s \<Rightarrow> Inl OverflowError
      | PNan \<Rightarrow> Inl ValueError
      | _ \<Rightarrow> Inl TypeError)"

section \<open>Rendering values as text\<close>

definition digit_char :: "nat \<Rightarrow> char" where
  "digit_char n = ''0123456789'' ! n"

fun show_nat :: "nat \<Rightarrow> string" where
  "show_nat n = (if n < 10 then [digit_char n] else show_nat (n div 10) @ [digit_char (n mod 10)])"

declare show_nat.simps [simp del]

definition show_int :: "int \<Rightarrow> string" where
  "show_int i = (if i < 0 then CHR ''-'' # show_nat (nat (- i)) else show_nat (nat i))"

text \<open>
  What Python's own runtime does, and the module only calls, is a parameter of the model:
  the text of a float or of a container (\<^verbatim>\<open>str\<close>), and \<^verbatim>\<open>str.format\<close> with the keyword
  arguments of \<^verbatim>\<open>build_spec\<close>, which gives the formatted text or the error it raises (a
  \<^verbatim>\<open>KeyError\<close> with the name of an unknown field, an \<^verbatim>\<open>IndexError\<close>, a \<^verbatim>\<open>ValueError\<close> and so
  on). So are the two catalogs the module loads from YAML files
  that are not part of it, the files and commands the availability probes look at, the
  machine lists \<^verbatim>\<open>get_training_machines\<close> returns, and the answer of the remote gateway.
\<close>

record kwargs =
  PRIORITY :: pyval
  MEMORY :: string
  PARALLELISATION :: pyval
  NATIVE_SPEC_EXTRA :: pyval

type_synonym resolution = "(string \<times> string) list \<times> (string \<times> string) list \<times> string \<times> pydict"

record world =
  runtime_str :: "pyval \<Rightarrow> string"
  format_str :: "string \<Rightarrow> kwargs \<Rightarrow> error + string"
  SPECIFICATIONS :: "(string \<times> pydict \<times> pydict) list"
  TOOL_DESTINATIONS :: "(string \<times> pydict) list"
  disable_drmaa_file :: bool
  disable_condor_file :: bool
  condor_status :: "string option"
  inventory :: "string \<Rightarrow> string list"
  remote :: "string \<Rightarrow> string list \<Rightarrow> string \<Rightarrow> error + resolution"

text \<open>\<^verbatim>\<open>'%s' % v\<close> and \<^verbatim>\<open>str(v)\<close>.\<close>

definition py_str :: "world \<Rightarrow> pyval \<Rightarrow> string" where
  "py_str w v = (case v of PInt n \<Rightarrow> show_int n | PStr s \<Rightarrow> s | _ \<Rightarrow> runtime_str w v)"

section \<open>Naming a destination\<close>

text \<open>Lines 61 to 66 of \<^verbatim>\<open>name_it\<close>: the name by the shape of the specification.\<close>

definition shape_name :: "world \<Rightarrow> pydict \<Rightarrow> string" where
  "shape_name w tool_spec =
     (if has_key tool_spec ''cores'' then
        py_str w (get_or tool_spec ''cores'' (PInt 1)) @ ''cores_''
          @ py_str w (get_or tool_spec ''mem'' (PInt 4)) @ ''G''
      else if py_len tool_spec = 0 \<or> (py_len tool_spec = 1 \<and> has_key tool_spec ''runner'') then
        py_str w (get_or tool_spec ''runner'' (PStr ''sge'')) @ ''_default''
      else
        py_str w (get_or tool_spec ''mem'' (PInt 4)) @ ''G_memory'')"

definition name_it :: "world \<Rightarrow> pydict \<Rightarrow> error + string" where
  "name_it w tool_spec =
     (let name = shape_name w tool_spec;
          name = (if map_of tool_spec ''tmp'' = Some (PStr ''large'') then name @ ''_large'' else name)
      in case map_of tool_spec ''name'' of
           None \<Rightarrow> Inr name
         | Some (PStr s) \<Rightarrow> Inr (name @ ''_'' @ s)
         | Some _ \<Rightarrow> Inl TypeError)"

section \<open>Strings\<close>

definition dq :: string where
  "dq = [CHR 0x22]"

fun join :: "string \<Rightarrow> string list \<Rightarrow> string" where
  "join sep [] = []"
| "join sep [x] = x"
| "join sep (x # y # ys) = x @ sep @ join sep (y # ys)"

text \<open>\<^verbatim>\<open>s.split(c)\<close> for a one-character separator.\<close>

fun split_on :: "char \<Rightarrow> string \<Rightarrow> string list" where
  "split_on c [] = [[]]"
| "split_on c (x # xs) =
     (if x = c then [] # split_on c xs
      else (case split_on c xs of [] \<Rightarrow> [[x]] | y # ys \<Rightarrow> (x # y) # ys))"

text \<open>\<^verbatim>\<open>strip()\<close> removes white space at both ends: the six ASCII characters, and for text
  strings the four separators \<^verbatim>\<open>\x1c\<close> to \<^verbatim>\<open>\x1f\<close> as well.\<close>

definition is_space :: "char \<Rightarrow> bool" where
  "is_space c = (c \<in> set [CHR 0x09, CHR 0x0A, CHR 0x0B, CHR 0x0C, CHR 0x0D, CHR 0x20])"

definition is_space_str :: "char \<Rightarrow> bool" where
  "is_space_str c = (is_space c \<or> c \<in> set [CHR 0x1C, CHR 0x1D, CHR 0x1E, CHR 0x1F])"

definition strip_with :: "(char \<Rightarrow> bool) \<Rightarrow> string \<Rightarrow> string" where
  "strip_with sp s = rev (dropWhile sp (rev (dropWhile sp s)))"

text \<open>\<^verbatim>\<open>s.replace(old, new)\<close>, for the non-empty \<^verbatim>\<open>old\<close> the module passes (an empty \<^verbatim>\<open>old\<close>
  leaves the string as it is here).\<close>

function py_replace :: "string \<Rightarrow> string \<Rightarrow> string \<Rightarrow> string" where
  "py_replace old new s =
     (if old = [] \<or> s = [] then s
      else if prefix old s then new @ py_replace old new (drop (length old) s)
      else hd s # py_replace old new (tl s))"
  by pat_completeness auto
termination
  by (relation "measure (\<lambda>(old, new, s). length s)") auto

declare py_replace.simps [simp del]

section \<open>Tool identifiers\<close>

definition get_tool_id :: "string \<Rightarrow> string" where
  "get_tool_id tool_id =
     (if count_list tool_id CHR ''/'' = 0 then tool_id
      else if count_list tool_id CHR ''/'' = 5 then split_on CHR ''/'' tool_id ! 4
      else tool_id)"

section \<open>Building the destination of a specification\<close>

definition CONDOR_MAX_CORES :: int where
  "CONDOR_MAX_CORES = 40"

definition CONDOR_MAX_MEM :: int where
  "CONDOR_MAX_MEM = 250 - 2"

definition SGE_MAX_CORES :: int where
  "SGE_MAX_CORES = 24"

definition SGE_MAX_MEM :: int where
  "SGE_MAX_MEM = 256 - 2"

text \<open>\<^verbatim>\<open>min(v, c)\<close> keeps its first argument unless the second is smaller.\<close>

definition py_min :: "pyval \<Rightarrow> int \<Rightarrow> error + pyval" where
  "py_min v c = bind_err (py_less c v) (\<lambda>smaller. Inr (if smaller then PInt c else v))"

text \<open>Lines 87 to 98: the effective memory and cores.\<close>

definition clamp_resources :: "string \<Rightarrow> pydict \<Rightarrow> error + pyval \<times> pyval" where
  "clamp_resources destination tool_spec =
     (let tool_memory = get_or tool_spec ''mem'' (PInt 4);
          tool_cores = get_or tool_spec ''cores'' (PInt 1)
      in if destination = ''sge'' then
           bind_err (py_min tool_memory SGE_MAX_MEM) (\<lambda>m.
           bind_err (py_min tool_cores SGE_MAX_CORES) (\<lambda>c. Inr (m, c)))
         else if sublist ''condor'' destination then
           bind_err (py_min tool_memory CONDOR_MAX_MEM) (\<lambda>m.
           bind_err (py_min tool_cores CONDOR_MAX_CORES) (\<lambda>c. Inr (m, c)))
         else Inr (tool_memory, tool_cores))"

text \<open>Lines 116 to 118: the memory per core in megabytes,
  \<^verbatim>\<open>'%sM' % int(1024 * tool_memory / tool_spec['cores'])\<close>.\<close>

definition sge_memory :: "pyval \<Rightarrow> pyval \<Rightarrow> error + string" where
  "sge_memory tool_memory cores =
     bind_err (times_1024 tool_memory) (\<lambda>product.
     bind_err (py_truediv product cores) (\<lambda>quotient.
     bind_err (float_to_int quotient) (\<lambda>real_memory.
       Inr (show_int real_memory @ ''M''))))"

text \<open>Lines 100 to 106, and what lines 112 to 127 and 132 to 141 do to the substitution
  values and to the raw allocation details.\<close>

definition backend_kwargs ::
  "world \<Rightarrow> string \<Rightarrow> pydict \<Rightarrow> pyval \<Rightarrow> pyval \<Rightarrow> error + kwargs \<times> pydict" where
  "backend_kwargs w destination tool_spec tool_memory tool_cores =
     (let kw = \<lparr>PRIORITY = get_or tool_spec ''priority'' (PInt 128),
                MEMORY = py_str w tool_memory @ ''G'',
                PARALLELISATION = PStr [],
                NATIVE_SPEC_EXTRA = PStr []\<rparr>
      in if destination = ''sge'' then
           bind_err
             (if has_key tool_spec ''cores'' then
                bind_err (sge_memory tool_memory (get_or tool_spec ''cores'' (PInt 1))) (\<lambda>real_memory.
                  Inr (kw\<lparr>PARALLELISATION := PStr (''-pe '' @ dq @ ''pe*'' @ dq @ '' '' @ py_str w tool_cores),
                          MEMORY := real_memory\<rparr>,
                       [(''mem'', tool_memory), (''cpu'', tool_cores)]))
              else Inr (kw, []))
             (\<lambda>(kw, raw).
                let kw = (case map_of tool_spec ''nativeSpecExtra'' of
                            None \<Rightarrow> kw
                          | Some v \<Rightarrow> kw\<lparr>NATIVE_SPEC_EXTRA := v\<rparr>)
                in if map_of tool_spec ''tmp'' = Some (PStr ''large'') then
                     (case NATIVE_SPEC_EXTRA kw of
                        PStr s \<Rightarrow> Inr (kw\<lparr>NATIVE_SPEC_EXTRA := PStr (s @ ''-l has_largetmp=1'')\<rparr>, raw)
                      | _ \<Rightarrow> Inl TypeError)
                   else Inr (kw, raw))
         else if sublist ''condor'' destination then
           (let (kw, raw) =
                  (if has_key tool_spec ''cores''
                   then (kw\<lparr>PARALLELISATION := tool_cores\<rparr>, [(''cpu'', tool_cores)])
                   else (kw, []));
                raw = (if has_key tool_spec ''mem'' then set_item raw ''mem'' tool_memory else raw)
            in Inr (kw, raw))
         else Inr (kw, []))"

text \<open>Lines 108 and 109: a native specification on one line.\<close>

definition flatten_native :: "pydict \<Rightarrow> error + pydict" where
  "flatten_native params =
     (case map_of params ''nativeSpecification'' of
        None \<Rightarrow> Inr params
      | Some (PStr s) \<Rightarrow>
          Inr (set_item params ''nativeSpecification''
                 (PStr (strip_with is_space_str (py_replace [CHR 0x0A] '' '' s))))
      | Some _ \<Rightarrow> Inl AttributeError)"

text \<open>The \<^verbatim>\<open>env\<close> and \<^verbatim>\<open>params\<close> entries of a specification, as \<^verbatim>\<open>dict.update\<close> reads them: an
  empty string updates a dictionary with nothing, the characters of any other string are
  not pairs, and a number is not iterable.\<close>

definition override_of :: "pydict \<Rightarrow> string \<Rightarrow> error + pydict" where
  "override_of tool_spec k =
     (case map_of tool_spec k of
        None \<Rightarrow> Inr []
      | Some (PDict d) \<Rightarrow> Inr d
      | Some (PStr s) \<Rightarrow> (if s = [] then Inr [] else Inl ValueError)
      | Some _ \<Rightarrow> Inl TypeError)"

text \<open>Lines 130, 131 and 143 to 147: what the backend does to the parameters.\<close>

definition backend_params :: "string \<Rightarrow> pydict \<Rightarrow> pydict \<Rightarrow> error + pydict" where
  "backend_params destination tool_spec params =
     (if destination = ''sge'' then
        bind_err
          (case map_of tool_spec ''env'' of
             None \<Rightarrow> Inr False
           | Some (PDict e) \<Rightarrow> Inr (has_key e ''_JAVA_OPTIONS'')
           | Some (PStr s) \<Rightarrow> Inr (sublist ''_JAVA_OPTIONS'' s)
           | Some _ \<Rightarrow> Inl TypeError)
          (\<lambda>java.
             if java then
               (case map_of params ''nativeSpecification'' of
                  None \<Rightarrow> Inl (KeyError ''nativeSpecification'')
                | Some (PStr s) \<Rightarrow>
                    Inr (set_item params ''nativeSpecification''
                           (PStr (py_replace ''-v _JAVA_OPTIONS'' [] s)))
                | Some _ \<Rightarrow> Inl AttributeError)
             else Inr params)
      else if sublist ''condor'' destination then
        (let params = (case map_of tool_spec ''requirements'' of
                         None \<Rightarrow> params
                       | Some v \<Rightarrow> set_item params ''requirements'' v);
             params = (case map_of tool_spec ''rank'' of
                         None \<Rightarrow> params
                       | Some v \<Rightarrow> set_item params ''rank'' v)
         in Inr params)
      else Inr params)"

text \<open>Lines 151 and 153: every value is turned into text and formatted with the
  substitution values.\<close>

fun render_items :: "world \<Rightarrow> kwargs \<Rightarrow> pydict \<Rightarrow> error + (string \<times> string) list" where
  "render_items w kw [] = Inr []"
| "render_items w kw (kv # kvs) =
     bind_err (format_str w (py_str w (snd kv)) kw) (\<lambda>s.
     bind_err (render_items w kw kvs) (\<lambda>r. Inr ((fst kv, s) # r)))"

definition build_spec :: "world \<Rightarrow> pydict \<Rightarrow> error + resolution" where
  "build_spec w tool_spec =
     (case get_or tool_spec ''runner'' (PStr ''sge'') of
        PStr destination \<Rightarrow>
          (let (env, params) =
                 (case map_of (SPECIFICATIONS w) destination of
                    None \<Rightarrow> ([], [])
                  | Some t \<Rightarrow> t)
           in bind_err (clamp_resources destination tool_spec) (\<lambda>(tool_memory, tool_cores).
              bind_err (flatten_native params) (\<lambda>params.
              bind_err (backend_kwargs w destination tool_spec tool_memory tool_cores) (\<lambda>(kw, raw).
              bind_err (backend_params destination tool_spec params) (\<lambda>params.
              bind_err (override_of tool_spec ''env'') (\<lambda>tool_env.
              bind_err (render_items w kw (AList.clearjunk (dict_update env tool_env))) (\<lambda>env.
              bind_err (override_of tool_spec ''params'') (\<lambda>tool_params.
              bind_err (render_items w kw (AList.clearjunk (dict_update params tool_params))) (\<lambda>params.
                Inr (env, params,
                     (if destination = ''sge'' then ''drmaa''
                      else if sublist ''condor'' destination then ''condor''
                      else ''local''),
                     raw))))))))))
      | _ \<Rightarrow> Inl TypeError)"

section \<open>Availability probes\<close>

definition drmaa_is_available :: "world \<Rightarrow> bool" where
  "drmaa_is_available w = (if disable_drmaa_file w then False else True)"

definition condor_is_available :: "world \<Rightarrow> bool" where
  "condor_is_available w =
     (if disable_condor_file w then False
      else (case condor_status w of
              None \<Rightarrow> False
            | Some executors \<Rightarrow>
                if length (strip_with is_space executors) = 0 then False else True))"

section \<open>Machine affinity\<close>

text \<open>
  \<^verbatim>\<open>get_training_machines\<close> keeps the machine list of a group for sixty seconds and asks the
  cluster again after that. One resolution sees one list per group: the model reads it from
  the snapshot.
\<close>

definition get_training_machines :: "world \<Rightarrow> string \<Rightarrow> string list" where
  "get_training_machines w grp = inventory w grp"

definition avoid_machines :: "world \<Rightarrow> string list option \<Rightarrow> string" where
  "avoid_machines w permissible =
     (let permissible = (case permissible of None \<Rightarrow> [] | Some p \<Rightarrow> p);
          machines = set (get_training_machines w ''training'');
          to_remove = foldl (\<lambda>to_remove allowed.
                               to_remove \<union> Set.filter (\<lambda>m. sublist allowed m) machines)
                        {} permissible;
          machines = machines - to_remove;
          data = map (\<lambda>m. ''(machine != '' @ dq @ m @ dq @ '')'') (sorted_list_of_set machines)
      in if length data \<noteq> 0 then ''( '' @ join '' && '' data @ '' )'' else [])"

definition prefer_machines :: "world \<Rightarrow> string list option \<Rightarrow> string \<Rightarrow> string" where
  "prefer_machines w training_identifiers machine_group =
     (let training_identifiers = (case training_identifiers of None \<Rightarrow> [] | Some p \<Rightarrow> p);
          machines = set (get_training_machines w machine_group);
          allowed = foldl (\<lambda>allowed identifier.
                             allowed \<union> Set.filter (\<lambda>m. sublist identifier m) machines)
                      {} training_identifiers;
          data = map (\<lambda>m. ''(machine == '' @ dq @ m @ dq @ '')'') (sorted_list_of_set allowed)
      in if length data \<noteq> 0 then ''( '' @ join '' || '' data @ '' )'' else [])"

section \<open>The resolution pipeline\<close>

definition reroute_to_dedicated :: "world \<Rightarrow> pydict \<Rightarrow> string list \<Rightarrow> pydict" where
  "reroute_to_dedicated w tool_spec user_roles =
     (let training_roles =
            map (drop (length ''training-'')) (filter (prefix ''training-'') user_roles)
      in if length training_roles = 0 then
           (if has_key tool_spec ''runner'' \<and> map_of tool_spec ''runner'' = Some (PStr ''condor'')
            then [(''requirement'', PStr (avoid_machines w None))]
            else [])
         else [(''requirements'', PStr (avoid_machines w (Some training_roles))),
               (''rank'', PStr (prefer_machines w (Some training_roles) ''training'')),
               (''runner'', PStr ''condor'')])"

text \<open>\<^verbatim>\<open>_finalize_tool_spec\<close>; the literal \<^verbatim>\<open>0.3\<close> is the double nearest to three tenths.\<close>

definition finalize_tool_spec :: "world \<Rightarrow> string \<Rightarrow> string list \<Rightarrow> rat \<Rightarrow> error + pydict" where
  "finalize_tool_spec w tool_id user_roles memory_scale =
     (let tool = get_tool_id tool_id;
          tool_spec = (case map_of (TOOL_DESTINATIONS w) tool of None \<Rightarrow> [] | Some s \<Rightarrow> s);
          tool_spec = dict_update tool_spec (reroute_to_dedicated w tool_spec user_roles)
      in bind_err (py_mul (get_or tool_spec ''mem'' (PInt 4)) memory_scale) (\<lambda>m.
           let tool_spec = set_item tool_spec ''mem'' m
           in if tool_id = ''upload1'' then
                Inr [(''mem'', PFloat (round_double (3 / 10))),
                     (''runner'', PStr ''condor''),
                     (''requirements'', PStr (prefer_machines w (Some [''upload'']) ''upload'')),
                     (''env'', PDict [(''TEMP'', PStr ''/data/1/galaxy_db/tmp/'')])]
              else if tool_id = ''__SET_METADATA__'' then
                Inr [(''mem'', PFloat (round_double (3 / 10))),
                     (''runner'', PStr ''condor''),
                     (''requirements'', PStr (prefer_machines w (Some [''metadata'']) ''metadata''))]
              else Inr tool_spec))"

definition convert_condor_to_sge :: "pydict \<Rightarrow> error + pydict" where
  "convert_condor_to_sge tool_spec =
     (let tool_spec = set_item tool_spec ''runner'' (PStr ''sge'')
      in case map_of tool_spec ''mem'' of
           None \<Rightarrow> Inl (KeyError ''mem'')
         | Some v \<Rightarrow> bind_err (py_ceil v) (\<lambda>n. Inr (set_item tool_spec ''mem'' (PInt n))))"

definition convert_sge_to_condor :: "pydict \<Rightarrow> pydict" where
  "convert_sge_to_condor tool_spec = set_item tool_spec ''runner'' (PStr ''condor'')"

definition handle_downed_runners :: "world \<Rightarrow> pydict \<Rightarrow> error + pydict" where
  "handle_downed_runners w tool_spec =
     (let avail_condor = condor_is_available w;
          avail_drmaa = drmaa_is_available w
      in if \<not> avail_condor \<and> \<not> avail_drmaa then Inl BothClustersDown
         else if get_or tool_spec ''runner'' (PStr ''local'') = PStr ''condor'' then
           (if avail_drmaa \<and> \<not> avail_condor then convert_condor_to_sge tool_spec
            else Inr tool_spec)
         else if get_or tool_spec ''runner'' (PStr ''local'') = PStr ''sge'' then
           (if avail_condor \<and> \<not> avail_drmaa then convert_condor_to_sge tool_spec
            else Inr tool_spec)
         else Inr tool_spec)"

text \<open>\<^verbatim>\<open>_gateway\<close>, the local resolution.\<close>

definition local_gateway ::
  "world \<Rightarrow> string \<Rightarrow> string list \<Rightarrow> string \<Rightarrow> rat \<Rightarrow> error + resolution" where
  "local_gateway w tool_id user_roles user_email memory_scale =
     bind_err (finalize_tool_spec w tool_id user_roles memory_scale) (\<lambda>tool_spec.
     bind_err (handle_downed_runners w tool_spec) (\<lambda>tool_spec.
       let tool_spec = (if ''gx-admin-force-jobs-to-condor'' \<in> set user_roles
                        then convert_sge_to_condor tool_spec else tool_spec)
       in bind_err (if ''gx-admin-force-jobs-to-drmaa'' \<in> set user_roles
                    then convert_condor_to_sge tool_spec else Inr tool_spec) (\<lambda>tool_spec.
          bind_err (if tool_id = ''echo_main_env'' then
                      (if user_email \<noteq> ''hxr@informatik.uni-freiburg.de'' then Inl Unauthorized
                       else Inr (convert_sge_to_condor tool_spec))
                    else Inr tool_spec) (\<lambda>tool_spec.
          bind_err (build_spec w tool_spec) (\<lambda>(env, params, runner, raw).
            Inr (env, params, runner, tool_spec))))))"

text \<open>\<^verbatim>\<open>_gateway2\<close> asks the remote gateway, up to eight times; its request holds the tool, the
  roles and the e-mail address, not the memory scale. \<open>Inl RequestException\<close> is the
  failure of the last attempt.\<close>

definition remote_gateway ::
  "world \<Rightarrow> string \<Rightarrow> string list \<Rightarrow> string \<Rightarrow> rat \<Rightarrow> error + resolution" where
  "remote_gateway w tool_id user_roles user_email memory_scale =
     remote w tool_id user_roles user_email"

section \<open>Gateways\<close>

record user =
  all_roles :: "(string \<times> bool) list"
  email :: string

record job_destination =
  jd_id :: string
  jd_runner :: string
  jd_params :: "(string \<times> string) list"
  jd_env :: "(string \<times> string) list"
  jd_resubmit :: "pydict list"

definition gateway :: "world \<Rightarrow> string \<Rightarrow> user option \<Rightarrow> rat \<Rightarrow> error + job_destination" where
  "gateway w tool_id usr memory_scale =
     (let (user_roles, mail) =
            (case usr of
               Some u \<Rightarrow> (map fst (filter (\<lambda>role. \<not> snd role) (all_roles u)), email u)
             | None \<Rightarrow> ([], []))
      in bind_err
           (case remote_gateway w tool_id user_roles mail memory_scale of
              Inl RequestException \<Rightarrow> local_gateway w tool_id user_roles mail memory_scale
            | r \<Rightarrow> r)
           (\<lambda>(env, params, runner, spec).
              bind_err (name_it w spec) (\<lambda>name.
                Inr \<lparr>jd_id = name, jd_runner = runner, jd_params = params, jd_env = env,
                     jd_resubmit = [[(''condition'', PStr ''any_failure''),
                                     (''destination'', PStr ''resubmit_gateway'')]]\<rparr>)))"

definition resubmit_gateway :: "world \<Rightarrow> string \<Rightarrow> user option \<Rightarrow> error + job_destination" where
  "resubmit_gateway w tool_id usr =
     bind_err (gateway w tool_id usr (3 / 2)) (\<lambda>job_destination.
       Inr (job_destination\<lparr>jd_resubmit := [],
                            jd_id := jd_id job_destination @ ''_resubmit''\<rparr>))"

section \<open>A world for the examples\<close>

text \<open>
  The examples below run in a world with empty catalogs, both clusters up, no training
  machines and an unreachable remote gateway. Its finite floats are printed in positional
  notation with at least one digit after the point, which is what Python prints for
  \<^verbatim>\<open>4.0\<close> or \<^verbatim>\<open>6.0\<close>; its templates have no replacement fields and are taken as they are.
\<close>

fun frac_digits :: "nat \<Rightarrow> rat \<Rightarrow> string" where
  "frac_digits 0 r = []"
| "frac_digits (Suc n) r =
     (if r = 0 then []
      else digit_char (nat \<lfloor>r * 10\<rfloor>) # frac_digits n (r * 10 - of_int \<lfloor>r * 10\<rfloor>))"

definition float_text :: "rat \<Rightarrow> string" where
  "float_text r =
     (if r < 0 then ''-'' else []) @ show_nat (nat \<lfloor>\<bar>r\<bar>\<rfloor>) @ ''.''
       @ (if \<bar>r\<bar> = of_int \<lfloor>\<bar>r\<bar>\<rfloor> then ''0'' else frac_digits 17 (\<bar>r\<bar> - of_int \<lfloor>\<bar>r\<bar>\<rfloor>))"

definition example_str :: "pyval \<Rightarrow> string" where
  "example_str v =
     (case v of
        PFloat r \<Rightarrow> float_text r
      | PInf s \<Rightarrow> (if s then ''inf'' else ''-inf'')
      | PNan \<Rightarrow> ''nan''
      | PInt n \<Rightarrow> show_int n
      | PStr s \<Rightarrow> s
      | PDict d \<Rightarrow> ''{...}'')"

definition quiet_world :: world where
  "quiet_world =
     \<lparr>runtime_str = example_str,
      format_str = (\<lambda>s kw. Inr s),
      SPECIFICATIONS = [],
      TOOL_DESTINATIONS = [],
      disable_drmaa_file = False,
      disable_condor_file = False,
      condor_status = Some ''slot1@node1'',
      inventory = (\<lambda>grp. []),
      remote = (\<lambda>tool_id user_roles user_email. Inl RequestException)\<rparr>"

section \<open>Basic facts\<close>

lemma bind_err_simps [simp]:
  "bind_err (Inl e) f = Inl e" "bind_err (Inr v) f = f v"
  by (simp_all add: bind_err_def)

lemmas dict_simps = has_key_def get_or_def py_len_def set_item_def dict_update_def

lemmas str_simps = py_str_def show_int_def show_nat.simps digit_char_def

lemma has_key_iff: "has_key d k \<longleftrightarrow> k \<in> fst ` set d"
  by (simp add: has_key_def map_of_eq_None_iff)

lemma py_len_card: "py_len d = card (fst ` set d)"
  by (simp add: py_len_def length_remdups_card_conv)

lemma keys_set_item: "fst ` set (set_item d k v) = insert k (fst ` set d)"
  by (simp add: set_item_def dom_update)

lemma map_of_set_item: "map_of (set_item d k v) = (map_of d)(k \<mapsto> v)"
  by (simp add: set_item_def update_conv')

lemma get_or_set_item_other: "k \<noteq> k' \<Longrightarrow> get_or (set_item d k v) k' x = get_or d k' x"
  by (simp add: get_or_def map_of_set_item)

lemma floor_rat_numeral: "\<lfloor>(numeral a / numeral b)::rat\<rfloor> = numeral a div numeral b"
  using floor_divide_of_int_eq[of "numeral a" "numeral b", where ?'a = rat] by simp

lemma ceiling_rat_numeral: "\<lceil>(numeral a / numeral b)::rat\<rceil> = - (- numeral a div numeral b)"
  using ceiling_divide_eq_div[of "numeral a" "numeral b", where ?'a = rat] by simp

lemma py_trunc_pos: "0 \<le> x \<Longrightarrow> py_trunc x = \<lfloor>x\<rfloor>"
  by (simp add: py_trunc_def)

lemma py_min_num:
  "num_of v = Some r \<Longrightarrow> \<exists>v'. py_min v c = Inr v' \<and> num_of v' = Some (min r (of_int c))"
  by (cases v) (auto simp: py_min_def py_less_def min_def)

lemma bind_err_Inl_iff:
  "bind_err m f = Inl e \<longleftrightarrow> m = Inl e \<or> (\<exists>v. m = Inr v \<and> f v = Inl e)"
  by (cases m) simp_all

lemma bind_err_Inr_iff:
  "bind_err m f = Inr r \<longleftrightarrow> (\<exists>v. m = Inr v \<and> f v = Inr r)"
  by (cases m) simp_all

section \<open>Rounding to a double\<close>

lemma floor_log2_bounds:
  assumes "0 < x"
  shows "2 powi (floor_log2 x) \<le> x" "x < 2 powi (floor_log2 x + 1)"
proof -
  obtain a b where q: "quotient_of x = (a, b)" by (cases "quotient_of x")
  then have b: "0 < b" and x: "x = of_int a / of_int b"
    using quotient_of_denom_pos[OF q] quotient_of_div[OF q] by auto
  with assms have a: "0 < a" by (simp add: zero_less_divide_iff)
  let ?d = "bitlen a - bitlen b"
  have la: "1 \<le> bitlen a" "1 \<le> bitlen b"
    using a b by (auto simp: bitlen_alt_def)
  have ba: "(2::rat) powi (bitlen a - 1) \<le> of_int a" "of_int a < (2::rat) powi (bitlen a)"
    using bitlen_bounds[OF a] la
    by (auto simp: power_int_def simp flip: of_int_le_iff of_int_less_iff)
  have bb: "(2::rat) powi (bitlen b - 1) \<le> of_int b" "of_int b < (2::rat) powi (bitlen b)"
    using bitlen_bounds[OF b] la
    by (auto simp: power_int_def simp flip: of_int_le_iff of_int_less_iff)
  have d1: "(2::rat) powi (?d - 1) < x"
  proof -
    have "(2::rat) powi (?d - 1) = 2 powi (bitlen a - 1) / 2 powi (bitlen b)"
      by (simp add: power_int_diff)
    also have "\<dots> < of_int a / of_int b"
      using ba bb a b by (intro frac_less2) auto
    finally show ?thesis by (simp add: x)
  qed
  have d2: "x < (2::rat) powi (?d + 1)"
  proof -
    have "of_int a / of_int b < (2::rat) powi (bitlen a) / 2 powi (bitlen b - 1)"
      using ba bb a b by (intro frac_less) auto
    also have "\<dots> = 2 powi (?d + 1)"
      by (simp add: power_int_diff power_int_add)
    finally show ?thesis by (simp add: x)
  qed
  show "2 powi (floor_log2 x) \<le> x"
    using d1 d2 by (simp add: floor_log2_def q Let_def)
  show "x < 2 powi (floor_log2 x + 1)"
    using d1 d2 by (auto simp: floor_log2_def q Let_def)
qed


lemma round_half_even_bounds:
  "of_int (round_half_even y) \<le> y + 1 / 2" "y - 1 / 2 \<le> of_int (round_half_even y)"
  unfolding round_half_even_def Let_def by (auto split: if_splits) linarith+

lemma round_half_even_ge:
  assumes "of_int z \<le> y"
  shows "z \<le> round_half_even y"
proof -
  have "z \<le> \<lfloor>y\<rfloor>" using assms by (simp add: le_floor_iff)
  then show ?thesis by (auto simp: round_half_even_def Let_def)
qed

lemma round_double_pos:
  assumes "0 < x"
  shows "round_double x =
           of_int (round_half_even (x / 2 powi (max (floor_log2 x) (- 1022) - 52)))
             * 2 powi (max (floor_log2 x) (- 1022) - 52)"
  using assms by (simp add: round_double_def Let_def)

lemma round_double_nonneg:
  assumes "0 \<le> x"
  shows "0 \<le> round_double x"
proof (cases "x = 0")
  case True
  then show ?thesis by (simp add: round_double_def)
next
  case False
  with assms have x: "0 < x" by simp
  let ?u = "(2::rat) powi (max (floor_log2 x) (- 1022) - 52)"
  have u: "0 < ?u" by simp
  have "of_int 0 \<le> x / ?u" using x u by simp
  then have "0 \<le> round_half_even (x / ?u)" by (rule round_half_even_ge)
  then show ?thesis using u by (simp add: round_double_pos[OF x])
qed

lemma round_double_lower:
  assumes "2 powi (- 1022) \<le> x"
  shows "2 powi (floor_log2 x) \<le> round_double x"
proof -
  have p: "(0::rat) < 2 powi (- 1022)" by simp
  with assms have x: "0 < x" by linarith
  let ?e = "floor_log2 x"
  have "\<not> ?e + 1 \<le> - 1022"
  proof
    assume "?e + 1 \<le> - 1022"
    then have "(2::rat) powi (?e + 1) \<le> 2 powi (- 1022)"
      by (intro power_int_increasing) auto
    with floor_log2_bounds(2)[OF x] assms show False by linarith
  qed
  then have e: "max ?e (- 1022) = ?e" by simp
  let ?u = "(2::rat) powi (?e - 52)"
  have u: "0 < ?u" by simp
  have "(2::rat) powi ?e = 2 powi 52 * ?u"
    by (simp add: power_int_diff)
  then have "of_int (2 ^ 52) \<le> x / ?u"
    using floor_log2_bounds(1)[OF x] u by (simp add: pos_le_divide_eq)
  then have "2 ^ 52 \<le> round_half_even (x / ?u)" by (rule round_half_even_ge)
  then have "(2::rat) ^ 52 \<le> of_int (round_half_even (x / ?u))"
    by (metis of_int_le_iff of_int_numeral of_int_power)
  then have "2 ^ 52 * ?u \<le> of_int (round_half_even (x / ?u)) * ?u"
    using u by simp
  then show ?thesis
    by (simp add: round_double_pos[OF x] e power_int_diff)
qed

lemma round_double_ge_1:
  assumes "1 \<le> x"
  shows "1 \<le> round_double x"
proof -
  have x: "0 < x" using assms by simp
  have "\<not> floor_log2 x < 0"
  proof
    assume "floor_log2 x < 0"
    then have "(2::rat) powi (floor_log2 x + 1) \<le> 2 powi 0"
      by (intro power_int_increasing) auto
    with floor_log2_bounds(2)[OF x] assms show False by simp
  qed
  then have "(2::rat) powi 0 \<le> 2 powi (floor_log2 x)"
    by (intro power_int_increasing) auto
  moreover have "(2::rat) powi (- 1022) \<le> x"
  proof -
    have "(2::rat) powi (- 1022) \<le> 2 powi 0" by (intro power_int_increasing) auto
    with assms show ?thesis by simp
  qed
  ultimately show ?thesis using round_double_lower[of x] by simp
qed

lemma round_double_upper:
  assumes "0 \<le> x"
  shows "round_double x \<le> 2 * x + 1"
proof (cases "x = 0")
  case True
  then show ?thesis by (simp add: round_double_def)
next
  case False
  with assms have x: "0 < x" by simp
  let ?e = "max (floor_log2 x) (- 1022)"
  let ?u = "(2::rat) powi (?e - 52)"
  have u: "0 < ?u" by simp
  have u1: "?u \<le> x + 1"
  proof (cases "floor_log2 x \<le> - 1022")
    case True
    then have "?u = 2 powi (- 1074)" by (simp add: max_def)
    also have "\<dots> \<le> 2 powi 0" by (intro power_int_increasing) auto
    finally show ?thesis using x by simp
  next
    case False
    then have "?u = 2 powi (floor_log2 x - 52)" by (simp add: max_def)
    also have "\<dots> \<le> 2 powi (floor_log2 x)" by (intro power_int_increasing) auto
    also have "\<dots> \<le> x" by (rule floor_log2_bounds(1)[OF x])
    finally show ?thesis by simp
  qed
  have "of_int (round_half_even (x / ?u)) * ?u \<le> (x / ?u + 1 / 2) * ?u"
    using round_half_even_bounds(1)[of "x / ?u"] u by (simp only: mult_le_cancel_right_pos)
  also have "\<dots> = x + ?u / 2" using u by (simp add: field_simps)
  finally have "round_double x \<le> x + ?u / 2" by (simp add: round_double_pos[OF x])
  with u1 x show ?thesis by linarith
qed

lemma below_limit: "\<bar>x\<bar> \<le> 2 ^ 64 \<Longrightarrow> \<not> FLOAT_LIMIT \<le> \<bar>x\<bar>"
  by (simp add: FLOAT_LIMIT_def)

lemma round_double_examples:
  "round_double 4 = 4" "round_double 6 = 6"
  "\<lfloor>round_double (4096 / 3)\<rfloor> = 1365" "\<lceil>round_double (3 / 10)\<rceil> = 1"
  by code_simp+

lemma py_mul_examples:
  "py_mul (PInt 4) 1 = Inr (PFloat 4)" "py_mul (PInt 4) (3 / 2) = Inr (PFloat 6)"
  by (simp_all add: py_mul_def to_float_def FLOAT_LIMIT_def round_double_examples)


section \<open>Names of destinations\<close>

lemma shape_name_add_tmp:
  assumes mat: "has_key spec ''cores'' \<or> (\<exists>k. has_key spec k \<and> k \<noteq> ''runner'')"
    and nt: "\<not> has_key spec ''tmp''"
  shows "shape_name w (set_item spec ''tmp'' v) = shape_name w spec"
proof (cases "has_key spec ''cores''")
  case True
  then have "has_key (set_item spec ''tmp'' v) ''cores''"
    by (simp add: has_key_iff keys_set_item)
  with True show ?thesis
    by (simp add: shape_name_def get_or_set_item_other)
next
  case False
  with mat obtain k where k: "k \<in> fst ` set spec" "k \<noteq> ''runner''"
    by (auto simp: has_key_iff)
  let ?K = "fst ` set spec"
  have fin: "finite ?K" by simp
  have c0: "card ?K \<noteq> 0" using k fin by auto
  have c1: "\<not> (card ?K = 1 \<and> ''runner'' \<in> ?K)"
  proof
    assume a: "card ?K = 1 \<and> ''runner'' \<in> ?K"
    then obtain x where "?K = {x}" by (auto simp: card_1_singleton_iff)
    with a k show False by auto
  qed
  have tmp: "''tmp'' \<notin> ?K" using nt by (simp add: has_key_iff)
  have c2: "card (insert ''tmp'' ?K) = Suc (card ?K)" using tmp fin by simp
  have nc: "\<not> has_key (set_item spec ''tmp'' v) ''cores''"
    using False by (simp add: has_key_iff keys_set_item)
  show ?thesis
    using False nc c0 c1 c2
    by (simp add: shape_name_def py_len_card keys_set_item get_or_set_item_other has_key_iff)
qed

lemma name_it_add_tmp:
  assumes mat: "has_key spec ''cores'' \<or> (\<exists>k. has_key spec k \<and> k \<noteq> ''runner'')"
    and nt: "\<not> has_key spec ''tmp''" and nn: "\<not> has_key spec ''name''"
    and n: "name_it w spec = Inr n"
  shows "name_it w (set_item spec ''tmp'' (PStr ''large'')) = Inr (n @ ''_large'')"
proof -
  have a: "map_of spec ''tmp'' = None" "map_of spec ''name'' = None"
    using nt nn by (simp_all add: has_key_def)
  have "n = shape_name w spec" using n a by (simp add: name_it_def)
  then show ?thesis
    using a shape_name_add_tmp[OF mat nt, of w "PStr ''large''"]
    by (simp add: name_it_def map_of_set_item)
qed

text \<open>
  C9, as the code has it. The specification \<^verbatim>\<open>{cores: 2, mem: 8}\<close> is named
  \<^verbatim>\<open>2cores_8G\<close>, the empty one and \<^verbatim>\<open>{runner: sge}\<close> are named \<^verbatim>\<open>sge_default\<close>, and
  \<^verbatim>\<open>{mem: 16}\<close> is named \<^verbatim>\<open>16G_memory\<close>. Adding \<^verbatim>\<open>tmp: large\<close> to a specification without
  the keys \<^verbatim>\<open>tmp\<close> and \<^verbatim>\<open>name\<close> appends \<^verbatim>\<open>_large\<close> to its name when the specification has
  the key \<^verbatim>\<open>cores\<close> or some key other than \<^verbatim>\<open>runner\<close>. An empty specification, or one with
  the runner alone, is named \<^verbatim>\<open>4G_memory_large\<close> once \<^verbatim>\<open>tmp: large\<close> is added, since \<^verbatim>\<open>tmp\<close>
  counts as a key of its own.
\<close>

theorem name_it_examples:
  "name_it w [(''cores'', PInt 2), (''mem'', PInt 8)] = Inr ''2cores_8G''
   \<and> name_it w [] = Inr ''sge_default''
   \<and> name_it w [(''runner'', PStr ''sge'')] = Inr ''sge_default''
   \<and> name_it w [(''mem'', PInt 16)] = Inr ''16G_memory''
   \<and> (\<forall>spec n. (has_key spec ''cores'' \<or> (\<exists>k. has_key spec k \<and> k \<noteq> ''runner''))
          \<and> \<not> has_key spec ''tmp'' \<and> \<not> has_key spec ''name'' \<and> name_it w spec = Inr n
        \<longrightarrow> name_it w (set_item spec ''tmp'' (PStr ''large'')) = Inr (n @ ''_large''))
   \<and> name_it w [(''tmp'', PStr ''large'')] = Inr ''4G_memory_large''
   \<and> name_it w [(''runner'', PStr ''sge''), (''tmp'', PStr ''large'')] = Inr ''4G_memory_large''"
proof -
  have 1: "name_it w [(''cores'', PInt 2), (''mem'', PInt 8)] = Inr ''2cores_8G''"
    by (simp add: name_it_def shape_name_def dict_simps str_simps)
  have 2: "name_it w [] = Inr ''sge_default''"
    by (simp add: name_it_def shape_name_def dict_simps str_simps)
  have 3: "name_it w [(''runner'', PStr ''sge'')] = Inr ''sge_default''"
    by (simp add: name_it_def shape_name_def dict_simps str_simps)
  have 4: "name_it w [(''mem'', PInt 16)] = Inr ''16G_memory''"
    by (simp add: name_it_def shape_name_def dict_simps str_simps)
  have 5: "name_it w [(''tmp'', PStr ''large'')] = Inr ''4G_memory_large''"
    by (simp add: name_it_def shape_name_def dict_simps str_simps)
  have 6: "name_it w [(''runner'', PStr ''sge''), (''tmp'', PStr ''large'')] = Inr ''4G_memory_large''"
    by (simp add: name_it_def shape_name_def dict_simps str_simps)
  have 7: "\<forall>spec n. (has_key spec ''cores'' \<or> (\<exists>k. has_key spec k \<and> k \<noteq> ''runner''))
          \<and> \<not> has_key spec ''tmp'' \<and> \<not> has_key spec ''name'' \<and> name_it w spec = Inr n
        \<longrightarrow> name_it w (set_item spec ''tmp'' (PStr ''large'')) = Inr (n @ ''_large'')"
    using name_it_add_tmp by blast
  show ?thesis using 1 2 3 4 5 6 7 by (intro conjI)
qed

theorem name_it_examples_witness:
  "has_key [(''mem'', PInt 16)] ''mem'' \<and> ''mem'' \<noteq> ''runner''
   \<and> \<not> has_key [(''mem'', PInt 16)] ''tmp'' \<and> \<not> has_key [(''mem'', PInt 16)] ''name''
   \<and> name_it quiet_world [(''mem'', PInt 16)] = Inr ''16G_memory''
   \<and> name_it quiet_world (set_item [(''mem'', PInt 16)] ''tmp'' (PStr ''large''))
       = Inr ''16G_memory_large''"
proof -
  have h: "has_key [(''mem'', PInt 16)] ''mem''" "''mem'' \<noteq> ''runner''"
    "\<not> has_key [(''mem'', PInt 16)] ''tmp''" "\<not> has_key [(''mem'', PInt 16)] ''name''"
    by (simp_all add: has_key_def)
  have n: "name_it quiet_world [(''mem'', PInt 16)] = Inr ''16G_memory''"
    using name_it_examples[of quiet_world] by (elim conjE)
  from name_it_examples[of quiet_world] h n
  have "name_it quiet_world (set_item [(''mem'', PInt 16)] ''tmp'' (PStr ''large''))
          = Inr (''16G_memory'' @ ''_large'')"
    by blast
  with h n show ?thesis by simp
qed

text \<open>
  The claim of C9 as the specification words it, that adding \<^verbatim>\<open>tmp: large\<close> appends
  \<^verbatim>\<open>_large\<close> to the name, fails on the empty specification: its name is \<^verbatim>\<open>sge_default\<close>,
  and with \<^verbatim>\<open>tmp: large\<close> it is \<^verbatim>\<open>4G_memory_large\<close>, not \<^verbatim>\<open>sge_default_large\<close>.
\<close>

theorem name_it_large_on_default:
  "name_it quiet_world [] = Inr ''sge_default''
   \<and> name_it quiet_world [(''tmp'', PStr ''large'')] = Inr ''4G_memory_large''
   \<and> name_it quiet_world [(''tmp'', PStr ''large'')] \<noteq> Inr (''sge_default'' @ ''_large'')"
  by (simp add: name_it_def shape_name_def dict_simps str_simps)

section \<open>Memory per core on SGE\<close>

lemma sge_memory_int:
  assumes "0 < c" "0 \<le> a" "a \<le> 254"
  shows "sge_memory (PInt a) (PInt c)
           = Inr (show_int \<lfloor>round_double (1024 * of_int a / of_int c)\<rfloor> @ ''M'')"
proof -
  let ?q = "(1024 * of_int a / of_int c)::rat"
  have c1: "(1::rat) \<le> of_int c" using assms(1) by linarith
  have a0: "(0::rat) \<le> 1024 * of_int a" using assms(2) by simp
  have q0: "0 \<le> ?q" using assms by simp
  have "1024 * of_int a * 1 \<le> 1024 * of_int a * (of_int c::rat)"
    using c1 a0 by (intro mult_left_mono)
  then have "?q \<le> 1024 * of_int a" using c1 by (simp add: divide_le_eq)
  also have "\<dots> \<le> 1024 * 254" using assms(3) by simp
  finally have "\<bar>?q\<bar> \<le> 2 ^ 64" using q0 by simp
  then have nl: "\<not> FLOAT_LIMIT \<le> \<bar>?q\<bar>" by (rule below_limit)
  have "0 \<le> round_double ?q" using q0 by (rule round_double_nonneg)
  then have "py_trunc (round_double ?q) = \<lfloor>round_double ?q\<rfloor>" by (rule py_trunc_pos)
  then show ?thesis
    using assms(1) nl by (simp add: sge_memory_def times_1024_def py_truediv_def float_to_int_def)
qed

lemma sge_memory_float:
  assumes "0 < c" "0 \<le> r" "r \<le> 254"
  shows "sge_memory (PFloat r) (PInt c)
           = (if FLOAT_LIMIT \<le> of_int c then Inl OverflowError
              else Inr (show_int \<lfloor>round_double (round_double (1024 * r) / round_double (of_int c))\<rfloor>
                          @ ''M''))"
proof -
  let ?p = "round_double (1024 * r)"
  let ?d = "round_double (of_int c)"
  have c1: "(1::rat) \<le> of_int c" using assms(1) by linarith
  have d1: "1 \<le> ?d" using c1 by (rule round_double_ge_1)
  have "\<bar>1024 * r\<bar> \<le> 2 ^ 64" using assms by simp
  then have t: "times_1024 (PFloat r) = Inr (PFloat ?p)"
    by (simp add: times_1024_def to_float_def below_limit)
  have p0: "0 \<le> ?p" using assms by (intro round_double_nonneg) simp
  have "?p \<le> 2 * (1024 * r) + 1" using assms by (intro round_double_upper) simp
  then have p1: "?p \<le> 2 ^ 64" using assms by simp
  have q0: "0 \<le> ?p / ?d" using p0 d1 by simp
  have "?p * 1 \<le> ?p * ?d" using p0 d1 by (intro mult_left_mono)
  then have "?p / ?d \<le> ?p" using d1 by (simp add: divide_le_eq)
  with p1 q0 have "\<bar>?p / ?d\<bar> \<le> 2 ^ 64" by simp
  then have nl: "\<not> FLOAT_LIMIT \<le> \<bar>?p / ?d\<bar>" by (rule below_limit)
  have "0 \<le> round_double (?p / ?d)" using q0 by (rule round_double_nonneg)
  then have tr: "py_trunc (round_double (?p / ?d)) = \<lfloor>round_double (?p / ?d)\<rfloor>"
    by (rule py_trunc_pos)
  have dn: "?d \<noteq> 0" using d1 by simp
  have ac: "\<bar>rat_of_int c\<bar> = of_int c" using assms(1) by simp
  show ?thesis
    using t nl tr dn ac
    by (simp add: sge_memory_def py_truediv_def is_float_def int_to_float_def to_float_def
        float_to_int_def del: abs_divide)
qed

text \<open>
  C1, as the code has it. For a specification sent to \<^verbatim>\<open>sge\<close> with an integer \<^verbatim>\<open>cores\<close> above
  zero and a finite memory above zero, the effective memory is the requested one clamped to
  254, and the \<^verbatim>\<open>MEMORY\<close> substitution value is \<^verbatim>\<open>int(1024 * mem / cores)\<close> followed by \<^verbatim>\<open>M\<close>:
  the whole part of the quotient in double precision, the fraction cut off and never rounded
  up. For an integer memory the quotient is rounded once; for a float memory the product,
  the number of cores and the quotient are each rounded. Two inputs give no substitution
  value: a float memory with a number of cores too large for a double raises
  \<^verbatim>\<open>OverflowError\<close>, and a large temporary directory asked for together with a native extra
  that is not a string raises \<^verbatim>\<open>TypeError\<close>.
\<close>

theorem sge_memory_truncates:
  assumes c: "map_of tool_spec ''cores'' = Some (PInt c)" "0 < c"
    and m: "num_of (get_or tool_spec ''mem'' (PInt 4)) = Some m" "0 < m"
  shows "\<exists>tm tc. clamp_resources ''sge'' tool_spec = Inr (tm, tc)
           \<and> num_of tm = Some (min m 254)
           \<and> (if is_float tm \<and> FLOAT_LIMIT \<le> of_int c
              then backend_kwargs w ''sge'' tool_spec tm tc = Inl OverflowError
              else (case backend_kwargs w ''sge'' tool_spec tm tc of
                      Inr (kw, raw) \<Rightarrow>
                        MEMORY kw =
                          show_int \<lfloor>if is_float tm
                                    then round_double (round_double (1024 * min m 254)
                                                         / round_double (of_int c))
                                    else round_double (1024 * min m 254 / of_int c)\<rfloor> @ ''M''
                    | Inl e \<Rightarrow> e = TypeError \<and> map_of tool_spec ''tmp'' = Some (PStr ''large'')
                         \<and> (\<exists>v. map_of tool_spec ''nativeSpecExtra'' = Some v
                                \<and> (\<forall>s. v \<noteq> PStr s))))"
proof -
  obtain tm where tm: "py_min (get_or tool_spec ''mem'' (PInt 4)) SGE_MAX_MEM = Inr tm"
      "num_of tm = Some (min m 254)"
    using py_min_num[OF m(1), of SGE_MAX_MEM] by (auto simp: SGE_MAX_MEM_def)
  have gc: "get_or tool_spec ''cores'' (PInt 1) = PInt c" using c by (simp add: get_or_def)
  obtain tc where tc: "py_min (PInt c) SGE_MAX_CORES = Inr tc"
    by (auto simp: py_min_def py_less_def)
  have cl: "clamp_resources ''sge'' tool_spec = Inr (tm, tc)"
    using tm tc gc by (simp add: clamp_resources_def)
  have hk: "has_key tool_spec ''cores''" using c by (simp add: has_key_def)
  have b: "0 \<le> min m 254" "min m 254 \<le> 254" using m(2) by simp_all
  have sm: "sge_memory tm (PInt c) =
              (if is_float tm \<and> FLOAT_LIMIT \<le> of_int c then Inl OverflowError
               else Inr (show_int \<lfloor>if is_float tm
                                    then round_double (round_double (1024 * min m 254)
                                                         / round_double (of_int c))
                                    else round_double (1024 * min m 254 / of_int c)\<rfloor> @ ''M''))"
  proof (cases tm)
    case (PInt a)
    with tm(2) have a: "of_int a = min m 254" by simp
    with b have "0 \<le> a" "a \<le> 254" by linarith+
    from sge_memory_int[OF c(2) this] show ?thesis
      by (simp add: PInt is_float_def a)
  next
    case (PFloat r)
    with tm(2) have r: "r = min m 254" by simp
    from sge_memory_float[OF c(2), of r] b show ?thesis
      by (simp add: PFloat is_float_def r)
  qed (use tm(2) in simp_all)
  show ?thesis
    apply (rule exI[of _ tm], rule exI[of _ tc])
    using cl tm(2) sm hk gc
    by (auto simp: backend_kwargs_def Let_def
        split: sum.splits option.splits pyval.splits prod.splits if_splits)
qed

theorem sge_memory_truncates_witness:
  "map_of [(''cores'', PInt 3), (''mem'', PInt 4)] ''cores'' = Some (PInt 3) \<and> (0::int) < 3
   \<and> num_of (get_or [(''cores'', PInt 3), (''mem'', PInt 4)] ''mem'' (PInt 4)) = Some 4
   \<and> (0::rat) < 4
   \<and> (\<exists>tm tc. clamp_resources ''sge'' [(''cores'', PInt 3), (''mem'', PInt 4)] = Inr (tm, tc)
        \<and> tm = PInt 4
        \<and> (case backend_kwargs quiet_world ''sge'' [(''cores'', PInt 3), (''mem'', PInt 4)] tm tc of
             Inr (kw, raw) \<Rightarrow> MEMORY kw = ''1365M''
           | Inl e \<Rightarrow> False))"
proof -
  let ?s = "[(''cores'', PInt 3), (''mem'', PInt 4)]"
  have h: "map_of ?s ''cores'' = Some (PInt 3)" "(0::int) < 3"
    "num_of (get_or ?s ''mem'' (PInt 4)) = Some 4" "(0::rat) < 4"
    by (simp_all add: get_or_def)
  have cl4: "clamp_resources ''sge'' ?s = Inr (PInt 4, PInt 3)"
    by (simp add: clamp_resources_def py_min_def py_less_def SGE_MAX_MEM_def SGE_MAX_CORES_def
        dict_simps)
  have v: "show_int \<lfloor>round_double (1024 * min 4 254 / rat_of_int 3)\<rfloor> @ ''M'' = ''1365M''"
    by (simp add: str_simps round_double_examples)
  have t: "map_of ?s ''tmp'' \<noteq> Some (PStr ''large'')" by simp
  from sge_memory_truncates[OF h, of quiet_world] obtain tm tc where
    cl: "clamp_resources ''sge'' ?s = Inr (tm, tc)"
    and kw: "if is_float tm \<and> FLOAT_LIMIT \<le> rat_of_int 3
              then backend_kwargs quiet_world ''sge'' ?s tm tc = Inl OverflowError
              else (case backend_kwargs quiet_world ''sge'' ?s tm tc of
                      Inr (kw, raw) \<Rightarrow>
                        MEMORY kw =
                          show_int \<lfloor>if is_float tm
                                    then round_double (round_double (1024 * min 4 254)
                                                         / round_double (rat_of_int 3))
                                    else round_double (1024 * min 4 254 / rat_of_int 3)\<rfloor> @ ''M''
                    | Inl e \<Rightarrow> e = TypeError \<and> map_of ?s ''tmp'' = Some (PStr ''large'')
                         \<and> (\<exists>v. map_of ?s ''nativeSpecExtra'' = Some v \<and> (\<forall>s. v \<noteq> PStr s)))"
    by blast
  from cl cl4 have e: "tm = PInt 4" "tc = PInt 3" by simp_all
  have nf: "\<not> is_float tm" by (simp add: e is_float_def)
  from kw nf have "case backend_kwargs quiet_world ''sge'' ?s tm tc of
             Inr (kw, raw) \<Rightarrow> MEMORY kw = ''1365M'' | Inl e \<Rightarrow> False"
    using t unfolding v[symmetric] by (auto split: sum.splits)
  with h cl e(1) show ?thesis by blast
qed

text \<open>
  The claim of C1 as the specification words it, the ceiling of \<open>1024 * mem / cores\<close>, fails
  for 4 gigabytes on 3 cores: the code asks for 1365 megabytes per core, the ceiling is 1366.
\<close>

theorem sge_memory_not_ceiling:
  "clamp_resources ''sge'' [(''cores'', PInt 3), (''mem'', PInt 4)] = Inr (PInt 4, PInt 3)
   \<and> map_sum id (MEMORY \<circ> fst)
       (backend_kwargs quiet_world ''sge'' [(''cores'', PInt 3), (''mem'', PInt 4)] (PInt 4) (PInt 3))
       = Inr ''1365M''
   \<and> show_int \<lceil>(1024 * 4 / 3)::rat\<rceil> @ ''M'' = ''1366M''"
proof -
  have "sge_memory (PInt 4) (PInt 3) = Inr ''1365M''"
    by (simp add: sge_memory_int str_simps round_double_examples)
  then show ?thesis
    by (simp add: clamp_resources_def py_min_def py_less_def SGE_MAX_MEM_def SGE_MAX_CORES_def
        backend_kwargs_def dict_simps str_simps ceiling_rat_numeral)
qed

section \<open>Clusters that are down\<close>

lemma quiet_probes:
  "condor_is_available quiet_world" "drmaa_is_available quiet_world"
  by (simp_all add: condor_is_available_def drmaa_is_available_def quiet_world_def
      strip_with_def is_space_def)

lemma condor_is_available_file: "disable_condor_file w \<Longrightarrow> \<not> condor_is_available w"
  by (simp add: condor_is_available_def)

lemma probes_upd:
  "condor_is_available (w\<lparr>disable_drmaa_file := b\<rparr>) = condor_is_available w"
  "drmaa_is_available (w\<lparr>disable_condor_file := b\<rparr>) = drmaa_is_available w"
  "drmaa_is_available (w\<lparr>disable_drmaa_file := b\<rparr>) = (\<not> b)"
  "condor_is_available (w\<lparr>disable_condor_file := True\<rparr>) = False"
  by (simp_all add: condor_is_available_def drmaa_is_available_def)

lemma convert_condor_to_sge_num:
  assumes "map_of tool_spec ''mem'' = Some v" "num_of v = Some m"
  shows "\<exists>spec'. convert_condor_to_sge tool_spec = Inr spec'
           \<and> map_of spec' = (map_of tool_spec)(''runner'' \<mapsto> PStr ''sge'', ''mem'' \<mapsto> PInt \<lceil>m\<rceil>)"
  using assms
  by (cases v) (auto simp: convert_condor_to_sge_def py_ceil_def map_of_set_item Let_def)

text \<open>
  C2 at its failing input. With SGE switched off and Condor up, a specification for \<^verbatim>\<open>sge\<close>
  goes through \<^verbatim>\<open>convert_condor_to_sge\<close> (line 363 calls it where \<^verbatim>\<open>convert_sge_to_condor\<close>
  was meant): it stays on \<^verbatim>\<open>sge\<close> and only its memory is rounded, while
  \<^verbatim>\<open>convert_sge_to_condor\<close> would have sent it to \<^verbatim>\<open>condor\<close>.
\<close>

theorem sge_down_stays_on_sge:
  "condor_is_available (quiet_world\<lparr>disable_drmaa_file := True\<rparr>)
   \<and> \<not> drmaa_is_available (quiet_world\<lparr>disable_drmaa_file := True\<rparr>)
   \<and> handle_downed_runners (quiet_world\<lparr>disable_drmaa_file := True\<rparr>)
        [(''runner'', PStr ''sge''), (''mem'', PFloat 4)]
      = Inr [(''runner'', PStr ''sge''), (''mem'', PInt 4)]
   \<and> convert_sge_to_condor [(''runner'', PStr ''sge''), (''mem'', PFloat 4)]
      = [(''runner'', PStr ''condor''), (''mem'', PFloat 4)]"
  by (simp add: probes_upd quiet_probes handle_downed_runners_def convert_condor_to_sge_def
      py_ceil_def convert_sge_to_condor_def dict_simps)

text \<open>
  C3, as the code has it. When Condor is down and SGE is up, \<^verbatim>\<open>handle_downed_runners\<close> turns
  a specification whose runner is exactly \<^verbatim>\<open>condor\<close>, and whose memory is a finite number,
  into one for \<^verbatim>\<open>sge\<close> with the memory rounded up to a whole number; every other key is kept.
  A specification with any other runner, the other names that contain \<^verbatim>\<open>condor\<close> included,
  is returned as it is.
\<close>

theorem condor_down_goes_to_sge:
  assumes "\<not> condor_is_available w" "drmaa_is_available w"
  shows "(\<forall>v m. map_of tool_spec ''runner'' = Some (PStr ''condor'')
              \<and> map_of tool_spec ''mem'' = Some v \<and> num_of v = Some m
            \<longrightarrow> (\<exists>spec'. handle_downed_runners w tool_spec = Inr spec'
                   \<and> map_of spec'
                       = (map_of tool_spec)(''runner'' \<mapsto> PStr ''sge'', ''mem'' \<mapsto> PInt \<lceil>m\<rceil>)))
       \<and> (get_or tool_spec ''runner'' (PStr ''local'') \<noteq> PStr ''condor''
            \<longrightarrow> handle_downed_runners w tool_spec = Inr tool_spec)"
proof (intro conjI allI impI)
  fix v m
  assume "map_of tool_spec ''runner'' = Some (PStr ''condor'')
            \<and> map_of tool_spec ''mem'' = Some v \<and> num_of v = Some m"
  then show "\<exists>spec'. handle_downed_runners w tool_spec = Inr spec'
               \<and> map_of spec'
                   = (map_of tool_spec)(''runner'' \<mapsto> PStr ''sge'', ''mem'' \<mapsto> PInt \<lceil>m\<rceil>)"
    using assms convert_condor_to_sge_num[of tool_spec v m]
    by (simp add: handle_downed_runners_def get_or_def)
next
  assume "get_or tool_spec ''runner'' (PStr ''local'') \<noteq> PStr ''condor''"
  then show "handle_downed_runners w tool_spec = Inr tool_spec"
    using assms by (simp add: handle_downed_runners_def)
qed

theorem condor_down_goes_to_sge_witness:
  "\<not> condor_is_available (quiet_world\<lparr>disable_condor_file := True\<rparr>)
   \<and> drmaa_is_available (quiet_world\<lparr>disable_condor_file := True\<rparr>)
   \<and> map_of [(''runner'', PStr ''condor''), (''mem'', PFloat (5 / 2))] ''runner'' = Some (PStr ''condor'')
   \<and> map_of [(''runner'', PStr ''condor''), (''mem'', PFloat (5 / 2))] ''mem'' = Some (PFloat (5 / 2))
   \<and> num_of (PFloat (5 / 2)) = Some (5 / 2)
   \<and> (\<exists>spec'. handle_downed_runners (quiet_world\<lparr>disable_condor_file := True\<rparr>)
                 [(''runner'', PStr ''condor''), (''mem'', PFloat (5 / 2))] = Inr spec'
         \<and> map_of spec' ''runner'' = Some (PStr ''sge'') \<and> map_of spec' ''mem'' = Some (PInt 3))
   \<and> get_or [(''runner'', PStr ''condor_big''), (''mem'', PFloat (5 / 2))] ''runner'' (PStr ''local'')
       \<noteq> PStr ''condor''
   \<and> handle_downed_runners (quiet_world\<lparr>disable_condor_file := True\<rparr>)
        [(''runner'', PStr ''condor_big''), (''mem'', PFloat (5 / 2))]
       = Inr [(''runner'', PStr ''condor_big''), (''mem'', PFloat (5 / 2))]"
proof -
  let ?w = "quiet_world\<lparr>disable_condor_file := True\<rparr>"
  let ?s = "[(''runner'', PStr ''condor''), (''mem'', PFloat (5 / 2))]"
  let ?t = "[(''runner'', PStr ''condor_big''), (''mem'', PFloat (5 / 2))]"
  have p: "\<not> condor_is_available ?w" "drmaa_is_available ?w"
    by (simp_all add: probes_upd quiet_probes)
  have h: "map_of ?s ''runner'' = Some (PStr ''condor'')"
    "map_of ?s ''mem'' = Some (PFloat (5 / 2))" "num_of (PFloat (5 / 2)) = Some (5 / 2)"
    by simp_all
  have g: "get_or ?t ''runner'' (PStr ''local'') \<noteq> PStr ''condor''"
    by (simp add: get_or_def)
  from condor_down_goes_to_sge[OF p, of ?s] h obtain spec' where
    s: "handle_downed_runners ?w ?s = Inr spec'"
    "map_of spec' = (map_of ?s)(''runner'' \<mapsto> PStr ''sge'', ''mem'' \<mapsto> PInt \<lceil>(5 / 2)::rat\<rceil>)"
    by blast
  have r: "map_of spec' ''runner'' = Some (PStr ''sge'')" "map_of spec' ''mem'' = Some (PInt 3)"
    by (simp_all add: s(2) ceiling_rat_numeral)
  from condor_down_goes_to_sge[OF p, of ?t] g
  have u: "handle_downed_runners ?w ?t = Inr ?t" by blast
  from p h s(1) r g u show ?thesis by blast
qed

text \<open>
  The claim of C3 for every Condor-family backend fails: the family is every runner whose
  name contains \<^verbatim>\<open>condor\<close> (so \<^verbatim>\<open>build_spec\<close> reads it), and \<^verbatim>\<open>handle_downed_runners\<close>
  leaves such a specification as it is unless the name is \<^verbatim>\<open>condor\<close> itself.
\<close>

theorem condor_family_not_converted:
  "\<not> condor_is_available (quiet_world\<lparr>disable_condor_file := True\<rparr>)
   \<and> drmaa_is_available (quiet_world\<lparr>disable_condor_file := True\<rparr>)
   \<and> sublist ''condor'' ''condor-docker''
   \<and> handle_downed_runners (quiet_world\<lparr>disable_condor_file := True\<rparr>)
        [(''runner'', PStr ''condor-docker''), (''mem'', PFloat (1 / 2))]
      = Inr [(''runner'', PStr ''condor-docker''), (''mem'', PFloat (1 / 2))]"
  by (simp add: probes_upd quiet_probes handle_downed_runners_def dict_simps sublist_code(3))

section \<open>The memory key through the pipeline\<close>

lemma has_key_set_item: "has_key (set_item d k v) k' \<longleftrightarrow> k' = k \<or> has_key d k'"
  by (auto simp: has_key_iff keys_set_item)

lemma finalize_has_mem:
  "finalize_tool_spec w tool_id user_roles memory_scale = Inr spec \<Longrightarrow> has_key spec ''mem''"
  by (auto simp: finalize_tool_spec_def Let_def bind_err_Inr_iff map_of_set_item has_key_def
      split: if_splits)

lemma convert_condor_to_sge_has_mem:
  "has_key tool_spec ''mem'' \<Longrightarrow> convert_condor_to_sge tool_spec \<noteq> Inl (KeyError ''mem'')"
  by (auto simp: convert_condor_to_sge_def Let_def map_of_set_item has_key_def py_ceil_def
      bind_err_Inl_iff split: option.splits pyval.splits)

lemma convert_condor_to_sge_keeps:
  "convert_condor_to_sge tool_spec = Inr spec' \<Longrightarrow> has_key spec' ''mem''"
  by (auto simp: convert_condor_to_sge_def Let_def map_of_set_item has_key_def
      bind_err_Inr_iff split: option.splits)

lemma convert_sge_to_condor_keeps:
  "has_key tool_spec k \<Longrightarrow> has_key (convert_sge_to_condor tool_spec) k"
  by (simp add: convert_sge_to_condor_def has_key_set_item)

lemma handle_downed_runners_no_key_error:
  "has_key tool_spec ''mem'' \<Longrightarrow> handle_downed_runners w tool_spec \<noteq> Inl (KeyError ''mem'')"
  using convert_condor_to_sge_has_mem[of tool_spec]
  by (simp add: handle_downed_runners_def Let_def)

lemma handle_downed_runners_keeps:
  "has_key tool_spec ''mem'' \<Longrightarrow> handle_downed_runners w tool_spec = Inr spec'
     \<Longrightarrow> has_key spec' ''mem''"
  using convert_condor_to_sge_keeps[of tool_spec spec']
  by (auto simp: handle_downed_runners_def Let_def split: if_splits)

section \<open>Both clusters down\<close>

lemma both_down: "\<not> condor_is_available w \<Longrightarrow> \<not> drmaa_is_available w
   \<Longrightarrow> handle_downed_runners w tool_spec = Inl BothClustersDown"
  by (simp add: handle_downed_runners_def)

lemma local_gateway_both_down:
  assumes "\<not> condor_is_available w" "\<not> drmaa_is_available w"
  shows "local_gateway w tool_id user_roles user_email memory_scale =
           (case finalize_tool_spec w tool_id user_roles memory_scale of
              Inl e \<Rightarrow> Inl e | Inr s \<Rightarrow> Inl BothClustersDown)"
  using both_down[OF assms]
  by (simp add: local_gateway_def split: sum.splits)

lemma both_down_world:
  "\<not> condor_is_available (quiet_world\<lparr>disable_condor_file := True, disable_drmaa_file := True\<rparr>)"
  "\<not> drmaa_is_available (quiet_world\<lparr>disable_condor_file := True, disable_drmaa_file := True\<rparr>)"
  by (simp_all add: condor_is_available_def drmaa_is_available_def)

lemma finalize_plain:
  "TOOL_DESTINATIONS w = [] \<Longrightarrow> finalize_tool_spec w ''cat1'' [] 1 = Inr [(''mem'', PFloat 4)]"
  by (simp add: finalize_tool_spec_def get_tool_id_def reroute_to_dedicated_def
      py_mul_examples dict_simps)

text \<open>
  C5. When both probes report down, \<^verbatim>\<open>handle_downed_runners\<close> raises, so the local
  resolution \<^verbatim>\<open>_gateway\<close> ends in an error for every tool, role list, e-mail address and
  memory scale, and \<^verbatim>\<open>gateway\<close> builds no destination once the remote gateway has failed
  too. The error is that of the two clusters being down whenever the specification of the
  tool could be finalized at all.
\<close>

theorem both_down_is_fatal:
  assumes "\<not> condor_is_available w" "\<not> drmaa_is_available w"
  shows "handle_downed_runners w tool_spec = Inl BothClustersDown
    \<and> (\<exists>e. local_gateway w tool_id user_roles user_email memory_scale = Inl e)
    \<and> (\<forall>s. finalize_tool_spec w tool_id user_roles memory_scale = Inr s
          \<longrightarrow> local_gateway w tool_id user_roles user_email memory_scale = Inl BothClustersDown)
    \<and> ((\<forall>roles mail. remote w tool_id roles mail = Inl RequestException)
          \<longrightarrow> (\<exists>e. gateway w tool_id usr memory_scale = Inl e))"
proof -
  have lg: "\<And>roles mail. \<exists>e. local_gateway w tool_id roles mail memory_scale = Inl e"
    by (simp add: local_gateway_both_down[OF assms] split: sum.splits)
  have g: "(\<forall>roles mail. remote w tool_id roles mail = Inl RequestException)
          \<longrightarrow> (\<exists>e. gateway w tool_id usr memory_scale = Inl e)"
  proof
    assume r: "\<forall>roles mail. remote w tool_id roles mail = Inl RequestException"
    obtain roles mail where rm: "(case usr of
               Some u \<Rightarrow> (map fst (filter (\<lambda>role. \<not> snd role) (all_roles u)), email u)
             | None \<Rightarrow> ([], [])) = (roles, mail)"
      by (cases "(case usr of
               Some u \<Rightarrow> (map fst (filter (\<lambda>role. \<not> snd role) (all_roles u)), email u)
             | None \<Rightarrow> ([], []))") auto
    from lg[of roles mail] obtain e where "local_gateway w tool_id roles mail memory_scale = Inl e"
      by blast
    then have "gateway w tool_id usr memory_scale = Inl e"
      using r rm by (simp add: gateway_def remote_gateway_def)
    then show "\<exists>e. gateway w tool_id usr memory_scale = Inl e" by blast
  qed
  show ?thesis
    using both_down[OF assms] lg g
    by (simp add: local_gateway_both_down[OF assms])
qed

theorem both_down_is_fatal_witness:
  "\<not> condor_is_available (quiet_world\<lparr>disable_condor_file := True, disable_drmaa_file := True\<rparr>)
   \<and> \<not> drmaa_is_available (quiet_world\<lparr>disable_condor_file := True, disable_drmaa_file := True\<rparr>)
   \<and> finalize_tool_spec (quiet_world\<lparr>disable_condor_file := True, disable_drmaa_file := True\<rparr>)
        ''cat1'' [] 1 = Inr [(''mem'', PFloat 4)]
   \<and> (\<forall>roles mail. remote (quiet_world\<lparr>disable_condor_file := True, disable_drmaa_file := True\<rparr>)
        ''cat1'' roles mail = Inl RequestException)
   \<and> handle_downed_runners (quiet_world\<lparr>disable_condor_file := True, disable_drmaa_file := True\<rparr>)
        [(''mem'', PFloat 4)] = Inl BothClustersDown
   \<and> local_gateway (quiet_world\<lparr>disable_condor_file := True, disable_drmaa_file := True\<rparr>)
        ''cat1'' [] [] 1 = Inl BothClustersDown
   \<and> (\<exists>e. gateway (quiet_world\<lparr>disable_condor_file := True, disable_drmaa_file := True\<rparr>)
        ''cat1'' None 1 = Inl e)"
proof -
  let ?w = "quiet_world\<lparr>disable_condor_file := True, disable_drmaa_file := True\<rparr>"
  have f: "finalize_tool_spec ?w ''cat1'' [] 1 = Inr [(''mem'', PFloat 4)]"
    by (rule finalize_plain) (simp add: quiet_world_def)
  have r: "\<forall>roles mail. remote ?w ''cat1'' roles mail = Inl RequestException"
    by (simp add: quiet_world_def)
  from both_down_is_fatal[OF both_down_world, of "[(''mem'', PFloat 4)]" "''cat1''" "[]" "[]" 1 None]
    f r both_down_world
  show ?thesis by blast
qed

section \<open>The memory of a finalized specification\<close>

text \<open>
  C10. Whatever \<^verbatim>\<open>_finalize_tool_spec\<close> returns has the key \<^verbatim>\<open>mem\<close>, so the lookup of
  \<^verbatim>\<open>tool_spec['mem']\<close> in \<^verbatim>\<open>convert_condor_to_sge\<close> finds it: when
  \<^verbatim>\<open>handle_downed_runners\<close> calls it, and when \<^verbatim>\<open>_gateway\<close> calls it for the role that forces
  jobs to DRMAA, with or without the role that forces jobs to Condor before it.
\<close>

theorem finalized_spec_has_mem:
  "\<forall>spec. finalize_tool_spec w tool_id user_roles memory_scale = Inr spec \<longrightarrow>
       has_key spec ''mem''
       \<and> handle_downed_runners w spec \<noteq> Inl (KeyError ''mem'')
       \<and> (\<forall>spec'. handle_downed_runners w spec = Inr spec' \<longrightarrow>
            convert_condor_to_sge spec' \<noteq> Inl (KeyError ''mem'')
            \<and> convert_condor_to_sge (convert_sge_to_condor spec') \<noteq> Inl (KeyError ''mem''))"
proof (intro allI impI)
  fix spec
  assume f: "finalize_tool_spec w tool_id user_roles memory_scale = Inr spec"
  have m: "has_key spec ''mem''" using f by (rule finalize_has_mem)
  have "convert_condor_to_sge spec' \<noteq> Inl (KeyError ''mem'')
          \<and> convert_condor_to_sge (convert_sge_to_condor spec') \<noteq> Inl (KeyError ''mem'')"
    if "handle_downed_runners w spec = Inr spec'" for spec'
    using handle_downed_runners_keeps[OF m that]
      convert_condor_to_sge_has_mem convert_sge_to_condor_keeps by blast
  with m handle_downed_runners_no_key_error[OF m]
  show "has_key spec ''mem''
       \<and> handle_downed_runners w spec \<noteq> Inl (KeyError ''mem'')
       \<and> (\<forall>spec'. handle_downed_runners w spec = Inr spec' \<longrightarrow>
            convert_condor_to_sge spec' \<noteq> Inl (KeyError ''mem'')
            \<and> convert_condor_to_sge (convert_sge_to_condor spec') \<noteq> Inl (KeyError ''mem''))"
    by blast
qed

theorem finalized_spec_has_mem_witness:
  "finalize_tool_spec quiet_world ''cat1'' [] 1 = Inr [(''mem'', PFloat 4)]
   \<and> handle_downed_runners quiet_world [(''mem'', PFloat 4)] = Inr [(''mem'', PFloat 4)]
   \<and> has_key [(''mem'', PFloat 4)] ''mem''
   \<and> convert_condor_to_sge [(''mem'', PFloat 4)] \<noteq> Inl (KeyError ''mem'')
   \<and> convert_condor_to_sge (convert_sge_to_condor [(''mem'', PFloat 4)]) \<noteq> Inl (KeyError ''mem'')"
proof -
  have f: "finalize_tool_spec quiet_world ''cat1'' [] 1 = Inr [(''mem'', PFloat 4)]"
    by (rule finalize_plain) (simp add: quiet_world_def)
  have h: "handle_downed_runners quiet_world [(''mem'', PFloat 4)] = Inr [(''mem'', PFloat 4)]"
    by (simp add: handle_downed_runners_def quiet_probes dict_simps)
  from finalized_spec_has_mem[of quiet_world "''cat1''" "[]" 1] f h
  show ?thesis by blast
qed

section \<open>The upload tool\<close>

lemma map_of_dict_update_other:
  "k \<notin> fst ` set other \<Longrightarrow> map_of (dict_update d other) k = map_of d k"
proof (induction other arbitrary: d)
  case Nil
  then show ?case by (simp add: dict_update_def)
next
  case (Cons kv other)
  have "dict_update d (kv # other) = dict_update (set_item d (fst kv) (snd kv)) other"
    by (simp add: dict_update_def)
  with Cons show ?case by (simp add: map_of_set_item)
qed

lemma reroute_keeps_mem: "''mem'' \<notin> fst ` set (reroute_to_dedicated w tool_spec user_roles)"
  by (auto simp: reroute_to_dedicated_def Let_def)

lemma get_tool_id_upload: "get_tool_id ''upload1'' = ''upload1''"
  by (simp add: get_tool_id_def)

lemma finalize_upload:
  assumes "finalize_tool_spec w ''upload1'' user_roles memory_scale = Inr spec"
  shows "spec = [(''mem'', PFloat (round_double (3 / 10))), (''runner'', PStr ''condor''),
                 (''requirements'', PStr (prefer_machines w (Some [''upload'']) ''upload'')),
                 (''env'', PDict [(''TEMP'', PStr ''/data/1/galaxy_db/tmp/'')])]"
  using assms by (auto simp: finalize_tool_spec_def Let_def bind_err_Inr_iff)

lemma py_mul_returns:
  assumes "is_float v \<or> (\<exists>n. v = PInt n \<and> \<bar>of_int n\<bar> < FLOAT_LIMIT)"
  shows "\<exists>p. py_mul v scale = Inr p"
  using assms by (cases v) (auto simp: py_mul_def is_float_def)

lemma finalize_upload_returns:
  assumes "\<forall>r. map_of (TOOL_DESTINATIONS w) ''upload1'' = Some r \<longrightarrow>
             is_float (get_or r ''mem'' (PInt 4))
             \<or> (\<exists>n. get_or r ''mem'' (PInt 4) = PInt n \<and> \<bar>of_int n\<bar> < FLOAT_LIMIT)"
  shows "\<exists>spec. finalize_tool_spec w ''upload1'' user_roles memory_scale = Inr spec"
proof -
  define r where "r = (case map_of (TOOL_DESTINATIONS w) ''upload1'' of None \<Rightarrow> [] | Some s \<Rightarrow> s)"
  have "\<bar>rat_of_int 4\<bar> < FLOAT_LIMIT" by (simp add: FLOAT_LIMIT_def)
  then have n: "is_float (get_or r ''mem'' (PInt 4))
             \<or> (\<exists>n. get_or r ''mem'' (PInt 4) = PInt n \<and> \<bar>of_int n\<bar> < FLOAT_LIMIT)"
    using assms by (auto simp: r_def get_or_def split: option.splits)
  have "get_or (dict_update r (reroute_to_dedicated w r user_roles)) ''mem'' (PInt 4)
          = get_or r ''mem'' (PInt 4)"
    by (simp add: get_or_def map_of_dict_update_other[OF reroute_keeps_mem])
  with py_mul_returns[OF n, of memory_scale]
  obtain v where "py_mul (get_or (dict_update r (reroute_to_dedicated w r user_roles)) ''mem'' (PInt 4))
      memory_scale = Inr v"
    by auto
  then show ?thesis
    by (simp add: finalize_tool_spec_def Let_def get_tool_id_upload r_def[symmetric])
qed

lemma build_spec_runner:
  assumes "build_spec w tool_spec = Inr (env, params, runner, raw)"
    and "map_of tool_spec ''runner'' = Some (PStr ''condor'')"
  shows "runner = ''condor''"
  using assms
  by (auto simp: build_spec_def get_or_def Let_def bind_err_Inr_iff split: prod.splits)


lemma local_gateway_Inr:
  assumes "local_gateway w tool_id user_roles user_email memory_scale = Inr (env, params, runner, spec)"
  shows "\<exists>s0 s1 s2 raw.
           finalize_tool_spec w tool_id user_roles memory_scale = Inr s0
           \<and> handle_downed_runners w s0 = Inr s1
           \<and> (if ''gx-admin-force-jobs-to-drmaa'' \<in> set user_roles
               then convert_condor_to_sge
                      (if ''gx-admin-force-jobs-to-condor'' \<in> set user_roles
                       then convert_sge_to_condor s1 else s1)
               else Inr (if ''gx-admin-force-jobs-to-condor'' \<in> set user_roles
                         then convert_sge_to_condor s1 else s1)) = Inr s2
           \<and> (tool_id = ''echo_main_env'' \<longrightarrow> user_email = ''hxr@informatik.uni-freiburg.de'')
           \<and> spec = (if tool_id = ''echo_main_env'' then convert_sge_to_condor s2 else s2)
           \<and> build_spec w spec = Inr (env, params, runner, raw)"
  using assms unfolding local_gateway_def Let_def bind_err_Inr_iff
  by (auto split: if_splits prod.splits)


lemma local_gateway_upload:
  assumes c: "condor_is_available w" and r: "''gx-admin-force-jobs-to-drmaa'' \<notin> set user_roles"
    and g: "local_gateway w ''upload1'' user_roles user_email memory_scale = Inr (env, params, runner, spec)"
  shows "runner = ''condor'' \<and> map_of spec ''mem'' = Some (PFloat (round_double (3 / 10)))
         \<and> map_of spec ''runner'' = Some (PStr ''condor'')"
proof -
  let ?u = "[(''mem'', PFloat (round_double (3 / 10))), (''runner'', PStr ''condor''),
             (''requirements'', PStr (prefer_machines w (Some [''upload'']) ''upload'')),
             (''env'', PDict [(''TEMP'', PStr ''/data/1/galaxy_db/tmp/'')])]"
  from local_gateway_Inr[OF g] r obtain s0 s1 s2 raw where
    f: "finalize_tool_spec w ''upload1'' user_roles memory_scale = Inr s0"
    and h: "handle_downed_runners w s0 = Inr s1"
    and k: "s2 = (if ''gx-admin-force-jobs-to-condor'' \<in> set user_roles
                  then convert_sge_to_condor s1 else s1)"
    and e: "spec = (if ''upload1'' = ''echo_main_env'' then convert_sge_to_condor s2 else s2)"
    and b: "build_spec w spec = Inr (env, params, runner, raw)"
    by auto
  have s0: "s0 = ?u" using f by (rule finalize_upload)
  have "handle_downed_runners w ?u = Inr ?u"
    using c by (simp add: handle_downed_runners_def get_or_def)
  with h have s1: "s1 = ?u" by (simp add: s0)
  have "convert_sge_to_condor ?u = ?u"
    by (simp add: convert_sge_to_condor_def set_item_def)
  with k have s2: "s2 = ?u" by (simp add: s1)
  from e have sp: "spec = ?u" by (simp add: s2)
  have m: "map_of ?u ''runner'' = Some (PStr ''condor'')"
    "map_of ?u ''mem'' = Some (PFloat (round_double (3 / 10)))" by simp_all
  from build_spec_runner[OF b[unfolded sp] m(1)] m show ?thesis by (simp add: sp)
qed

text \<open>
  C7, as the code has it. Whatever the catalog holds for \<^verbatim>\<open>upload1\<close>, and for every list of
  roles and every memory scale, the specification that \<^verbatim>\<open>_finalize_tool_spec\<close> returns for
  \<^verbatim>\<open>upload1\<close> has the runner \<^verbatim>\<open>condor\<close> and the memory 0.3; it returns one whenever the memory
  of the catalog entry can be multiplied by the scale (a float, or an integer that fits a
  double). The local resolution \<^verbatim>\<open>_gateway\<close> keeps both, and sends the job to the \<^verbatim>\<open>condor\<close>
  runner, when Condor is available and the user does not hold the role that forces jobs to
  DRMAA.
\<close>

theorem upload_goes_to_condor:
  "(\<forall>spec. finalize_tool_spec w ''upload1'' user_roles memory_scale = Inr spec \<longrightarrow>
       map_of spec ''mem'' = Some (PFloat (round_double (3 / 10)))
       \<and> map_of spec ''runner'' = Some (PStr ''condor''))
   \<and> ((\<forall>r. map_of (TOOL_DESTINATIONS w) ''upload1'' = Some r \<longrightarrow>
            is_float (get_or r ''mem'' (PInt 4))
            \<or> (\<exists>n. get_or r ''mem'' (PInt 4) = PInt n \<and> \<bar>of_int n\<bar> < FLOAT_LIMIT))
        \<longrightarrow> (\<exists>spec. finalize_tool_spec w ''upload1'' user_roles memory_scale = Inr spec))
   \<and> (condor_is_available w \<and> ''gx-admin-force-jobs-to-drmaa'' \<notin> set user_roles \<longrightarrow>
        (\<forall>env params runner spec.
           local_gateway w ''upload1'' user_roles user_email memory_scale
             = Inr (env, params, runner, spec) \<longrightarrow>
           runner = ''condor''
           \<and> map_of spec ''mem'' = Some (PFloat (round_double (3 / 10)))
           \<and> map_of spec ''runner'' = Some (PStr ''condor'')))"
proof (intro conjI allI impI)
  fix spec
  assume "finalize_tool_spec w ''upload1'' user_roles memory_scale = Inr spec"
  from finalize_upload[OF this]
  show "map_of spec ''mem'' = Some (PFloat (round_double (3 / 10)))"
    and "map_of spec ''runner'' = Some (PStr ''condor'')" by simp_all
next
  assume "\<forall>r. map_of (TOOL_DESTINATIONS w) ''upload1'' = Some r \<longrightarrow>
            is_float (get_or r ''mem'' (PInt 4))
            \<or> (\<exists>n. get_or r ''mem'' (PInt 4) = PInt n \<and> \<bar>of_int n\<bar> < FLOAT_LIMIT)"
  then show "\<exists>spec. finalize_tool_spec w ''upload1'' user_roles memory_scale = Inr spec"
    by (rule finalize_upload_returns)
next
  fix env params runner spec
  assume a: "condor_is_available w \<and> ''gx-admin-force-jobs-to-drmaa'' \<notin> set user_roles"
    and g: "local_gateway w ''upload1'' user_roles user_email memory_scale
              = Inr (env, params, runner, spec)"
  from local_gateway_upload[OF _ _ g] a
  show "runner = ''condor''"
    and "map_of spec ''mem'' = Some (PFloat (round_double (3 / 10)))"
    and "map_of spec ''runner'' = Some (PStr ''condor'')" by simp_all
qed

lemma quiet_prefer: "inventory w grp = [] \<Longrightarrow> prefer_machines w (Some ids) grp = []"
  by (induction ids) (simp_all add: prefer_machines_def get_training_machines_def)

lemma finalize_upload_plain:
  assumes "TOOL_DESTINATIONS w = []" "inventory w ''upload'' = []"
  shows "finalize_tool_spec w ''upload1'' [] 1
           = Inr [(''mem'', PFloat (round_double (3 / 10))), (''runner'', PStr ''condor''),
                  (''requirements'', PStr []),
                  (''env'', PDict [(''TEMP'', PStr ''/data/1/galaxy_db/tmp/'')])]"
  using assms
  by (simp add: finalize_tool_spec_def get_tool_id_upload reroute_to_dedicated_def
      py_mul_examples dict_simps quiet_prefer)

lemma round_double_3_10: "round_double (3 / 10) = 5404319552844595 / 18014398509481984"
  by code_simp

lemma build_upload_condor:
  "build_spec quiet_world
     [(''mem'', PFloat (round_double (3 / 10))), (''runner'', PStr ''condor''),
      (''requirements'', PStr []),
      (''env'', PDict [(''TEMP'', PStr ''/data/1/galaxy_db/tmp/'')])]
   = Inr ([(''TEMP'', ''/data/1/galaxy_db/tmp/'')], [(''requirements'', [])], ''condor'',
          [(''mem'', PFloat (round_double (3 / 10)))])"
  by (simp add: build_spec_def clamp_resources_def py_min_def py_less_def flatten_native_def
      backend_kwargs_def backend_params_def override_of_def dict_simps quiet_world_def
      CONDOR_MAX_MEM_def CONDOR_MAX_CORES_def sublist_code(3) py_str_def
      round_double_3_10)

lemma build_upload_sge:
  "build_spec (quiet_world\<lparr>disable_condor_file := True\<rparr>)
     [(''mem'', PInt 1), (''runner'', PStr ''sge''),
      (''requirements'', PStr []),
      (''env'', PDict [(''TEMP'', PStr ''/data/1/galaxy_db/tmp/'')])]
   = Inr ([(''TEMP'', ''/data/1/galaxy_db/tmp/'')], [], ''drmaa'', [])"
  by (simp add: build_spec_def clamp_resources_def py_min_def py_less_def flatten_native_def
      backend_kwargs_def backend_params_def override_of_def dict_simps quiet_world_def
      SGE_MAX_MEM_def SGE_MAX_CORES_def py_str_def Let_def)


theorem upload_goes_to_condor_witness:
  "finalize_tool_spec quiet_world ''upload1'' [] 1
       = Inr [(''mem'', PFloat (round_double (3 / 10))), (''runner'', PStr ''condor''),
              (''requirements'', PStr []),
              (''env'', PDict [(''TEMP'', PStr ''/data/1/galaxy_db/tmp/'')])]
   \<and> map_of (TOOL_DESTINATIONS quiet_world) ''upload1'' = None
   \<and> condor_is_available quiet_world \<and> ''gx-admin-force-jobs-to-drmaa'' \<notin> set []
   \<and> local_gateway quiet_world ''upload1'' [] [] 1
       = Inr ([(''TEMP'', ''/data/1/galaxy_db/tmp/'')], [(''requirements'', [])], ''condor'',
              [(''mem'', PFloat (round_double (3 / 10))), (''runner'', PStr ''condor''),
               (''requirements'', PStr []),
               (''env'', PDict [(''TEMP'', PStr ''/data/1/galaxy_db/tmp/'')])])
   \<and> map_of [(''mem'', PFloat (round_double (3 / 10))), (''runner'', PStr ''condor''),
              (''requirements'', PStr []),
              (''env'', PDict [(''TEMP'', PStr ''/data/1/galaxy_db/tmp/'')])] ''mem''
       = Some (PFloat (round_double (3 / 10)))
   \<and> (\<exists>spec. finalize_tool_spec quiet_world ''upload1'' [] 1 = Inr spec)"
proof -
  let ?u = "[(''mem'', PFloat (round_double (3 / 10))), (''runner'', PStr ''condor''),
             (''requirements'', PStr []),
             (''env'', PDict [(''TEMP'', PStr ''/data/1/galaxy_db/tmp/'')])]"
  have f: "finalize_tool_spec quiet_world ''upload1'' [] 1 = Inr ?u"
    by (rule finalize_upload_plain) (simp_all add: quiet_world_def)
  have t: "map_of (TOOL_DESTINATIONS quiet_world) ''upload1'' = None"
    by (simp add: quiet_world_def)
  have h: "handle_downed_runners quiet_world ?u = Inr ?u"
    by (simp add: handle_downed_runners_def quiet_probes get_or_def)
  have g: "local_gateway quiet_world ''upload1'' [] [] 1
       = Inr ([(''TEMP'', ''/data/1/galaxy_db/tmp/'')], [(''requirements'', [])], ''condor'', ?u)"
    by (simp add: local_gateway_def f h build_upload_condor)
  have c: "condor_is_available quiet_world \<and> ''gx-admin-force-jobs-to-drmaa'' \<notin> set []"
    by (simp add: quiet_probes)
  from upload_goes_to_condor[of quiet_world "[]" 1 "[]"] f t c g
  have "map_of ?u ''mem'' = Some (PFloat (round_double (3 / 10)))"
    and "\<exists>spec. finalize_tool_spec quiet_world ''upload1'' [] 1 = Inr spec"
    by simp_all
  with f t c g show ?thesis by simp
qed

text \<open>
  The claim of C7 for every resolution fails when Condor is down and SGE is up: the
  specification of \<^verbatim>\<open>upload1\<close> goes through \<^verbatim>\<open>convert_condor_to_sge\<close>, and the job is sent to
  \<^verbatim>\<open>drmaa\<close> with a memory of 1.
\<close>

theorem upload_on_sge_when_condor_down:
  "\<not> condor_is_available (quiet_world\<lparr>disable_condor_file := True\<rparr>)
   \<and> drmaa_is_available (quiet_world\<lparr>disable_condor_file := True\<rparr>)
   \<and> local_gateway (quiet_world\<lparr>disable_condor_file := True\<rparr>) ''upload1'' [] [] 1
       = Inr ([(''TEMP'', ''/data/1/galaxy_db/tmp/'')], [], ''drmaa'',
              [(''mem'', PInt 1), (''runner'', PStr ''sge''), (''requirements'', PStr []),
               (''env'', PDict [(''TEMP'', PStr ''/data/1/galaxy_db/tmp/'')])])"
proof -
  let ?w = "quiet_world\<lparr>disable_condor_file := True\<rparr>"
  let ?u = "[(''mem'', PFloat (round_double (3 / 10))), (''runner'', PStr ''condor''),
             (''requirements'', PStr []),
             (''env'', PDict [(''TEMP'', PStr ''/data/1/galaxy_db/tmp/'')])]"
  have p: "\<not> condor_is_available ?w" "drmaa_is_available ?w"
    by (simp_all add: probes_upd quiet_probes)
  have f: "finalize_tool_spec ?w ''upload1'' [] 1 = Inr ?u"
    by (rule finalize_upload_plain) (simp_all add: quiet_world_def)
  have h: "handle_downed_runners ?w ?u
             = Inr [(''mem'', PInt 1), (''runner'', PStr ''sge''), (''requirements'', PStr []),
                    (''env'', PDict [(''TEMP'', PStr ''/data/1/galaxy_db/tmp/'')])]"
    using p
    by (simp add: handle_downed_runners_def convert_condor_to_sge_def py_ceil_def dict_simps
        round_double_examples)
  show ?thesis
    using p by (simp add: local_gateway_def f h build_upload_sge)
qed

section \<open>Resubmission\<close>

lemma float_text_examples: "float_text 4 = ''4.0''" "float_text 6 = ''6.0''"
  by code_simp+

lemma name_it_quiet_mem:
  "name_it quiet_world [(''mem'', PFloat 4)] = Inr ''4.0G_memory''"
  "name_it quiet_world [(''mem'', PFloat 6)] = Inr ''6.0G_memory''"
  "name_it quiet_world [(''mem'', PInt 4)] = Inr ''4G_memory''"
  by (simp_all add: name_it_def shape_name_def dict_simps py_str_def quiet_world_def
      example_str_def float_text_examples show_int_def show_nat.simps digit_char_def)

lemma finalize_plain_resubmit:
  "TOOL_DESTINATIONS w = [] \<Longrightarrow> finalize_tool_spec w ''cat1'' [] (3 / 2) = Inr [(''mem'', PFloat 6)]"
  by (simp add: finalize_tool_spec_def get_tool_id_def reroute_to_dedicated_def
      py_mul_examples dict_simps)

lemma build_quiet_mem:
  "num_of v = Some m \<Longrightarrow> m \<le> 254 \<Longrightarrow>
     build_spec quiet_world [(''mem'', v)] = Inr ([], [], ''drmaa'', [])"
  by (cases v)
    (simp_all add: build_spec_def clamp_resources_def py_min_def py_less_def flatten_native_def
      backend_kwargs_def backend_params_def override_of_def dict_simps quiet_world_def
      SGE_MAX_MEM_def SGE_MAX_CORES_def Let_def)

lemma local_gateway_quiet:
  "local_gateway quiet_world ''cat1'' [] [] 1 = Inr ([], [], ''drmaa'', [(''mem'', PFloat 4)])"
  "local_gateway quiet_world ''cat1'' [] [] (3 / 2) = Inr ([], [], ''drmaa'', [(''mem'', PFloat 6)])"
proof -
  have t: "TOOL_DESTINATIONS quiet_world = []" by (simp add: quiet_world_def)
  have h: "handle_downed_runners quiet_world [(''mem'', v)] = Inr [(''mem'', v)]" for v
    by (simp add: handle_downed_runners_def quiet_probes dict_simps)
  show "local_gateway quiet_world ''cat1'' [] [] 1 = Inr ([], [], ''drmaa'', [(''mem'', PFloat 4)])"
    by (simp add: local_gateway_def finalize_plain[OF t] h build_quiet_mem)
  show "local_gateway quiet_world ''cat1'' [] [] (3 / 2) = Inr ([], [], ''drmaa'', [(''mem'', PFloat 6)])"
    by (simp add: local_gateway_def finalize_plain_resubmit[OF t] h build_quiet_mem)
qed

lemma gateway_quiet:
  "gateway quiet_world ''cat1'' None 1
     = Inr \<lparr>jd_id = ''4.0G_memory'', jd_runner = ''drmaa'', jd_params = [], jd_env = [],
            jd_resubmit = [[(''condition'', PStr ''any_failure''),
                            (''destination'', PStr ''resubmit_gateway'')]]\<rparr>"
  "gateway quiet_world ''cat1'' None (3 / 2)
     = Inr \<lparr>jd_id = ''6.0G_memory'', jd_runner = ''drmaa'', jd_params = [], jd_env = [],
            jd_resubmit = [[(''condition'', PStr ''any_failure''),
                            (''destination'', PStr ''resubmit_gateway'')]]\<rparr>"
proof -
  have r: "remote_gateway quiet_world ''cat1'' [] [] s = Inl RequestException" for s
    by (simp add: remote_gateway_def quiet_world_def)
  show "gateway quiet_world ''cat1'' None 1
     = Inr \<lparr>jd_id = ''4.0G_memory'', jd_runner = ''drmaa'', jd_params = [], jd_env = [],
            jd_resubmit = [[(''condition'', PStr ''any_failure''),
                            (''destination'', PStr ''resubmit_gateway'')]]\<rparr>"
    by (simp add: gateway_def r local_gateway_quiet name_it_quiet_mem)
  show "gateway quiet_world ''cat1'' None (3 / 2)
     = Inr \<lparr>jd_id = ''6.0G_memory'', jd_runner = ''drmaa'', jd_params = [], jd_env = [],
            jd_resubmit = [[(''condition'', PStr ''any_failure''),
                            (''destination'', PStr ''resubmit_gateway'')]]\<rparr>"
    by (simp add: gateway_def r local_gateway_quiet name_it_quiet_mem)
qed

lemma gateway_remote_scale:
  assumes "\<forall>roles mail. remote w tool_id roles mail \<noteq> Inl RequestException"
  shows "gateway w tool_id usr s = gateway w tool_id usr s'"
proof -
  obtain roles mail where rm: "(case usr of
               Some u \<Rightarrow> (map fst (filter (\<lambda>role. \<not> snd role) (all_roles u)), email u)
             | None \<Rightarrow> ([], [])) = (roles, mail)"
    by (cases "(case usr of
               Some u \<Rightarrow> (map fst (filter (\<lambda>role. \<not> snd role) (all_roles u)), email u)
             | None \<Rightarrow> ([], []))") auto
  have "(case remote w tool_id roles mail of
           Inl RequestException \<Rightarrow> local_gateway w tool_id roles mail x
         | r \<Rightarrow> r) = remote w tool_id roles mail" for x
    using assms[rule_format, of roles mail]
    by (auto split: sum.splits error.splits)
  then show ?thesis
    by (simp add: gateway_def rm remote_gateway_def)
qed

text \<open>
  C6, as the code has it. The destination that \<^verbatim>\<open>resubmit_gateway\<close> returns is the one
  \<^verbatim>\<open>gateway\<close> builds for the same tool and user at the memory scale 1.5, with an empty list of
  resubmissions and \<^verbatim>\<open>_resubmit\<close> appended to its id. When the remote gateway answers, the
  memory scale plays no part (the request does not carry it), and that id is the id of the
  plain \<^verbatim>\<open>gateway\<close> call.
\<close>

theorem resubmit_gateway_id:
  "(\<forall>jd. gateway w tool_id usr (3 / 2) = Inr jd \<longrightarrow>
        resubmit_gateway w tool_id usr
          = Inr (jd\<lparr>jd_resubmit := [], jd_id := jd_id jd @ ''_resubmit''\<rparr>))
   \<and> (\<forall>jd'. resubmit_gateway w tool_id usr = Inr jd' \<longrightarrow>
        jd_resubmit jd' = []
        \<and> (\<exists>jd. gateway w tool_id usr (3 / 2) = Inr jd \<and> jd_id jd' = jd_id jd @ ''_resubmit''))
   \<and> ((\<forall>roles mail. remote w tool_id roles mail \<noteq> Inl RequestException) \<longrightarrow>
        gateway w tool_id usr (3 / 2) = gateway w tool_id usr 1)"
proof (intro conjI allI impI)
  fix jd
  assume "gateway w tool_id usr (3 / 2) = Inr jd"
  then show "resubmit_gateway w tool_id usr
          = Inr (jd\<lparr>jd_resubmit := [], jd_id := jd_id jd @ ''_resubmit''\<rparr>)"
    by (simp add: resubmit_gateway_def)
next
  fix jd'
  assume a: "resubmit_gateway w tool_id usr = Inr jd'"
  then obtain jd where g: "gateway w tool_id usr (3 / 2) = Inr jd"
    and j: "jd' = jd\<lparr>jd_resubmit := [], jd_id := jd_id jd @ ''_resubmit''\<rparr>"
    by (auto simp: resubmit_gateway_def bind_err_Inr_iff)
  show "jd_resubmit jd' = []" by (simp add: j)
  show "\<exists>jd. gateway w tool_id usr (3 / 2) = Inr jd \<and> jd_id jd' = jd_id jd @ ''_resubmit''"
    using g j by simp
next
  assume "\<forall>roles mail. remote w tool_id roles mail \<noteq> Inl RequestException"
  then show "gateway w tool_id usr (3 / 2) = gateway w tool_id usr 1"
    by (rule gateway_remote_scale)
qed

lemma gateway_answering:
  "gateway (quiet_world\<lparr>remote := \<lambda>tool_id user_roles user_email.
               Inr ([], [], ''drmaa'', [(''mem'', PInt 4)])\<rparr>) ''cat1'' None s
     = Inr \<lparr>jd_id = ''4G_memory'', jd_runner = ''drmaa'', jd_params = [], jd_env = [],
            jd_resubmit = [[(''condition'', PStr ''any_failure''),
                            (''destination'', PStr ''resubmit_gateway'')]]\<rparr>"
proof -
  let ?w = "quiet_world\<lparr>remote := \<lambda>tool_id user_roles user_email.
               Inr ([], [], ''drmaa'', [(''mem'', PInt 4)])\<rparr>"
  have n: "name_it ?w [(''mem'', PInt 4)] = Inr ''4G_memory''"
    by (simp add: name_it_def shape_name_def dict_simps py_str_def show_int_def show_nat.simps
        digit_char_def)
  show ?thesis by (simp add: gateway_def remote_gateway_def n)
qed

theorem resubmit_gateway_id_witness:
  "gateway quiet_world ''cat1'' None (3 / 2)
     = Inr \<lparr>jd_id = ''6.0G_memory'', jd_runner = ''drmaa'', jd_params = [], jd_env = [],
            jd_resubmit = [[(''condition'', PStr ''any_failure''),
                            (''destination'', PStr ''resubmit_gateway'')]]\<rparr>
   \<and> resubmit_gateway quiet_world ''cat1'' None
     = Inr \<lparr>jd_id = ''6.0G_memory_resubmit'', jd_runner = ''drmaa'', jd_params = [], jd_env = [],
            jd_resubmit = []\<rparr>
   \<and> gateway (quiet_world\<lparr>remote := \<lambda>tool_id user_roles user_email.
               Inr ([], [], ''drmaa'', [(''mem'', PInt 4)])\<rparr>) ''cat1'' None (3 / 2)
     = gateway (quiet_world\<lparr>remote := \<lambda>tool_id user_roles user_email.
               Inr ([], [], ''drmaa'', [(''mem'', PInt 4)])\<rparr>) ''cat1'' None 1
   \<and> resubmit_gateway (quiet_world\<lparr>remote := \<lambda>tool_id user_roles user_email.
               Inr ([], [], ''drmaa'', [(''mem'', PInt 4)])\<rparr>) ''cat1'' None
     = Inr \<lparr>jd_id = ''4G_memory_resubmit'', jd_runner = ''drmaa'', jd_params = [], jd_env = [],
            jd_resubmit = []\<rparr>"
proof -
  let ?w = "quiet_world\<lparr>remote := \<lambda>tool_id user_roles user_email.
               Inr ([], [], ''drmaa'', [(''mem'', PInt 4)])\<rparr>"
  note g = gateway_quiet(2)
  from resubmit_gateway_id[of quiet_world "''cat1''" None] g
  have r: "resubmit_gateway quiet_world ''cat1'' None
     = Inr \<lparr>jd_id = ''6.0G_memory_resubmit'', jd_runner = ''drmaa'', jd_params = [], jd_env = [],
            jd_resubmit = []\<rparr>"
    by simp
  have a: "\<forall>roles mail. remote ?w ''cat1'' roles mail \<noteq> Inl RequestException" by simp
  from resubmit_gateway_id[of ?w "''cat1''" None] a
  have e: "gateway ?w ''cat1'' None (3 / 2) = gateway ?w ''cat1'' None 1" by blast
  from resubmit_gateway_id[of ?w "''cat1''" None] gateway_answering[of "3 / 2"]
  have r2: "resubmit_gateway ?w ''cat1'' None
     = Inr \<lparr>jd_id = ''4G_memory_resubmit'', jd_runner = ''drmaa'', jd_params = [], jd_env = [],
            jd_resubmit = []\<rparr>"
    by simp
  from g r e r2 show ?thesis by simp
qed

text \<open>
  The claim of C6 as the specification words it, the id of the plain \<^verbatim>\<open>gateway\<close> call plus the
  suffix, fails when the local resolution runs: the memory is scaled by 1.5 before the
  destination is named, so a tool without a catalog entry is named \<^verbatim>\<open>4.0G_memory\<close> by
  \<^verbatim>\<open>gateway\<close> and \<^verbatim>\<open>6.0G_memory_resubmit\<close> by \<^verbatim>\<open>resubmit_gateway\<close>.
\<close>

theorem resubmit_id_follows_scaled_memory:
  "map_sum id jd_id (gateway quiet_world ''cat1'' None 1) = Inr ''4.0G_memory''
   \<and> map_sum id jd_id (resubmit_gateway quiet_world ''cat1'' None) = Inr ''6.0G_memory_resubmit''
   \<and> ''6.0G_memory_resubmit'' \<noteq> ''4.0G_memory'' @ ''_resubmit''"
  by (simp add: gateway_quiet resubmit_gateway_def)

section \<open>Machines to avoid\<close>

lemma foldl_union_filter:
  "foldl (\<lambda>acc a. acc \<union> Set.filter (P a) M) S xs = S \<union> {m \<in> M. \<exists>a\<in>set xs. P a m}"
  by (induction xs arbitrary: S) auto

lemma avoid_machines_rest:
  "avoid_machines w permissible =
     (let rest = sorted_list_of_set
                   {m \<in> set (inventory w ''training'').
                      \<forall>a\<in>set (case permissible of None \<Rightarrow> [] | Some p \<Rightarrow> p). \<not> sublist a m}
      in if rest = [] then []
         else ''( '' @ join '' && '' (map (\<lambda>m. ''(machine != '' @ dq @ m @ dq @ '')'') rest) @ '' )'')"
proof -
  let ?p = "case permissible of None \<Rightarrow> [] | Some p \<Rightarrow> p"
  let ?M = "set (inventory w ''training'')"
  let ?S = "{m \<in> ?M. \<forall>a\<in>set ?p. \<not> sublist a m}"
  have key: "?M - foldl (\<lambda>to_remove allowed. to_remove \<union> Set.filter (\<lambda>m. sublist allowed m) ?M)
                    {} ?p = ?S"
    unfolding foldl_union_filter by auto
  show ?thesis
    unfolding avoid_machines_def get_training_machines_def Let_def key
    by (cases "sorted_list_of_set ?S = []") simp_all
qed

lemma training_names:
  "sublist ''a'' ''a-training-1''" "sublist ''a'' ''b-training-2''"
  "sublist ''a-'' ''a-training-1''" "\<not> sublist ''a-'' ''b-training-2''"
  "''a-training-1'' < ''b-training-2''"
  by code_simp+

text \<open>
  C8, as the code has it. \<^verbatim>\<open>avoid_machines\<close> takes the training machines of the inventory,
  drops every machine whose name contains one of the permissible identifiers, and renders
  the remaining ones, each once and sorted by name, as clauses \<^verbatim>\<open>(machine != "name")\<close> joined
  by \<^verbatim>\<open>&&\<close> between \<^verbatim>\<open>( \<close> and \<^verbatim>\<open> )\<close>; with no machine left the result is the empty string.
  Over the inventory of \<^verbatim>\<open>a-training-1\<close> and \<^verbatim>\<open>b-training-2\<close>, no identifier gives both
  clauses, the identifier \<^verbatim>\<open>a-\<close> gives the clause of \<^verbatim>\<open>b-training-2\<close> alone, and the identifier
  \<^verbatim>\<open>a\<close> gives the empty string, since both names contain the letter.
\<close>

theorem avoid_machines_renders:
  "(\<exists>rest. sorted rest \<and> distinct rest
        \<and> set rest = {m \<in> set (inventory w ''training'').
                        \<forall>a\<in>set (case permissible of None \<Rightarrow> [] | Some p \<Rightarrow> p). \<not> sublist a m}
        \<and> avoid_machines w permissible =
            (if rest = [] then []
             else ''( '' @ join '' && '' (map (\<lambda>m. ''(machine != '' @ dq @ m @ dq @ '')'') rest)
                    @ '' )''))
   \<and> (inventory w ''training'' = [''a-training-1'', ''b-training-2''] \<longrightarrow>
        avoid_machines w (Some []) = ''( (machine != '' @ dq @ ''a-training-1'' @ dq
            @ '') && (machine != '' @ dq @ ''b-training-2'' @ dq @ '') )''
        \<and> avoid_machines w None = avoid_machines w (Some [])
        \<and> avoid_machines w (Some [''a-'']) = ''( (machine != '' @ dq @ ''b-training-2'' @ dq @ '') )''
        \<and> avoid_machines w (Some [''a'']) = [])"
proof (intro conjI impI)
  let ?S = "{m \<in> set (inventory w ''training'').
              \<forall>a\<in>set (case permissible of None \<Rightarrow> [] | Some p \<Rightarrow> p). \<not> sublist a m}"
  have "finite ?S" by simp
  then have "sorted (sorted_list_of_set ?S)" "distinct (sorted_list_of_set ?S)"
    "set (sorted_list_of_set ?S) = ?S" by simp_all
  then show "\<exists>rest. sorted rest \<and> distinct rest \<and> set rest = ?S
        \<and> avoid_machines w permissible =
            (if rest = [] then []
             else ''( '' @ join '' && '' (map (\<lambda>m. ''(machine != '' @ dq @ m @ dq @ '')'') rest)
                    @ '' )'')"
    using avoid_machines_rest[of w permissible] unfolding Let_def by blast
next
  assume i: "inventory w ''training'' = [''a-training-1'', ''b-training-2'']"
  have s2: "sorted_list_of_set {''a-training-1'', ''b-training-2''}
              = [''a-training-1'', ''b-training-2'']"
    using training_names(5) by simp
  have e: "{m \<in> set [''a-training-1'', ''b-training-2'']. \<forall>a\<in>set []. \<not> sublist a m}
             = {''a-training-1'', ''b-training-2''}" by auto
  show "avoid_machines w (Some []) = ''( (machine != '' @ dq @ ''a-training-1'' @ dq
            @ '') && (machine != '' @ dq @ ''b-training-2'' @ dq @ '') )''"
    by (simp add: avoid_machines_rest i e s2 del: set_simps)
  show "avoid_machines w None = avoid_machines w (Some [])"
    by (simp add: avoid_machines_rest)
  have "{m \<in> set [''a-training-1'', ''b-training-2'']. \<forall>a\<in>set [''a-'']. \<not> sublist a m}
             = {''b-training-2''}"
    using training_names by auto
  then show "avoid_machines w (Some [''a-''])
               = ''( (machine != '' @ dq @ ''b-training-2'' @ dq @ '') )''"
    by (simp add: avoid_machines_rest i del: set_simps)
  have "{m \<in> set [''a-training-1'', ''b-training-2'']. \<forall>a\<in>set [''a'']. \<not> sublist a m} = {}"
    using training_names by auto
  then show "avoid_machines w (Some [''a'']) = []"
    by (simp add: avoid_machines_rest i del: set_simps)
qed


theorem avoid_machines_renders_witness:
  "inventory (quiet_world\<lparr>inventory := \<lambda>grp. [''a-training-1'', ''b-training-2'']\<rparr>) ''training''
     = [''a-training-1'', ''b-training-2'']
   \<and> avoid_machines (quiet_world\<lparr>inventory := \<lambda>grp. [''a-training-1'', ''b-training-2'']\<rparr>)
        (Some [])
       = ''( (machine != '' @ dq @ ''a-training-1'' @ dq
            @ '') && (machine != '' @ dq @ ''b-training-2'' @ dq @ '') )''
   \<and> avoid_machines (quiet_world\<lparr>inventory := \<lambda>grp. [''a-training-1'', ''b-training-2'']\<rparr>)
        (Some [''a-''])
       = ''( (machine != '' @ dq @ ''b-training-2'' @ dq @ '') )''
   \<and> avoid_machines (quiet_world\<lparr>inventory := \<lambda>grp. [''a-training-1'', ''b-training-2'']\<rparr>)
        (Some [''a'']) = []"
proof -
  let ?w = "quiet_world\<lparr>inventory := \<lambda>grp. [''a-training-1'', ''b-training-2'']\<rparr>"
  have i: "inventory ?w ''training'' = [''a-training-1'', ''b-training-2'']" by simp
  from avoid_machines_renders[of ?w None] i show ?thesis by blast
qed

text \<open>
  The second example of C8 as the specification words it fails: the identifier \<^verbatim>\<open>a\<close> is
  looked for anywhere in a machine name, \<^verbatim>\<open>b-training-2\<close> contains it, and no clause is left.
\<close>

theorem avoid_machines_matches_substrings:
  "inventory (quiet_world\<lparr>inventory := \<lambda>grp. [''a-training-1'', ''b-training-2'']\<rparr>) ''training''
     = [''a-training-1'', ''b-training-2'']
   \<and> sublist ''a'' ''b-training-2''
   \<and> avoid_machines (quiet_world\<lparr>inventory := \<lambda>grp. [''a-training-1'', ''b-training-2'']\<rparr>)
        (Some [''a'']) = []
   \<and> avoid_machines (quiet_world\<lparr>inventory := \<lambda>grp. [''a-training-1'', ''b-training-2'']\<rparr>)
        (Some [''a''])
       \<noteq> ''( (machine != '' @ dq @ ''b-training-2'' @ dq @ '') )''"
proof -
  have "{m \<in> set [''a-training-1'', ''b-training-2'']. \<forall>a\<in>set [''a'']. \<not> sublist a m} = {}"
    using training_names by auto
  then have "avoid_machines (quiet_world\<lparr>inventory := \<lambda>grp. [''a-training-1'', ''b-training-2'']\<rparr>)
        (Some [''a'']) = []"
    by (simp add: avoid_machines_rest del: set_simps)
  then show ?thesis using training_names(2) by simp
qed

section \<open>Ceilings of the backends\<close>













end
